theory Spec2Isabelle
  imports Complex_Main "HOL-Library.AList"
begin

section \<open>Python values used by the router and the sweep generator\<close>

text \<open>
  Exceptions that leave a function are values. Only the classes that occur on the
  modelled paths are listed; the string is the text \<^verbatim>\<open>str(e)\<close> of the exception, or the
  missing key of a \<^verbatim>\<open>KeyError\<close>.
\<close>

datatype py_exn =
    RuntimeError string
  | KeyError string
  | TypeError
  | OverflowError
  | ValueError

subsection \<open>Floats\<close>

text \<open>
  A Python \<^verbatim>\<open>float\<close> is an IEEE binary64 number: a finite one, given by its exact
  rational value, an infinity, or NaN. The two zeros are one value here; they are equal
  for Python and differ only in a printed sign. A float literal and the result of a
  float operation are the exact result rounded to the nearest binary64 value (ties to
  even), or an infinity when that value would be \<open>2 ^ 1024\<close> or more; \<open>float_round\<close>
  does this, the subnormal range included.
\<close>

datatype pyfloat = Finite rat | PosInf | NegInf | NaN

definition pow_int :: "int \<Rightarrow> int \<Rightarrow> rat" where
  "pow_int b k = (if 0 \<le> k then of_int b ^ nat k else 1 / of_int b ^ nat (- k))"

definition round_half_even :: "rat \<Rightarrow> int" where
  "round_half_even q =
     (let f = \<lfloor>q\<rfloor>; d = q - of_int f
      in if d < 1 / 2 then f else if 1 / 2 < d then f + 1 else if even f then f else f + 1)"

text \<open>
  \<open>ndigits b n\<close> is the number of base-\<open>b\<close> digits of a positive integer, and
  \<open>ilog b x\<close> the integer \<open>k\<close> with \<open>b ^ k \<le> x < b ^ (k + 1)\<close>, for \<open>x > 0\<close>.
\<close>

function ndigits :: "int \<Rightarrow> int \<Rightarrow> int" where
  "ndigits b n = (if 1 < b \<and> 0 < n then ndigits b (n div b) + 1 else 0)"
  by pat_completeness auto
termination
  by (relation "measure (\<lambda>(b, n). nat n)") (auto simp: int_div_less_self)

declare ndigits.simps [simp del]

definition ilog :: "int \<Rightarrow> rat \<Rightarrow> int" where
  "ilog b x =
     (let k = ndigits b (fst (quotient_of x)) - ndigits b (snd (quotient_of x))
      in if pow_int b k \<le> x then k else k - 1)"

text \<open>
  In \<open>float_round\<close>, \<open>e\<close> is the binary exponent of \<open>x\<close> (at least that of the
  smallest normal float), \<open>u\<close> the distance of neighbouring floats there and \<open>n\<close> the
  rounded multiple of \<open>u\<close>. The value \<open>n * u\<close> is \<open>2 ^ 1024\<close> or more exactly when
  the number of binary digits of \<open>n\<close> plus \<open>e - 52\<close> exceeds 1024.
\<close>

definition float_round :: "rat \<Rightarrow> pyfloat" where
  "float_round x =
     (if x = 0 then Finite 0
      else let a = \<bar>x\<bar>; e = max (ilog 2 a) (- 1022); u = pow_int 2 (e - 52);
               n = round_half_even (a / u)
           in if 1024 < ndigits 2 n + (e - 52) then (if 0 < x then PosInf else NegInf)
              else Finite (sgn x * of_int n * u))"

text \<open>
  \<^verbatim>\<open>a < b\<close> and \<^verbatim>\<open>a <= b\<close> on floats: false as soon as one side is NaN.
\<close>

fun float_lt :: "pyfloat \<Rightarrow> pyfloat \<Rightarrow> bool" where
  "float_lt NaN b = False"
| "float_lt a NaN = False"
| "float_lt (Finite a) (Finite b) = (a < b)"
| "float_lt a NegInf = False"
| "float_lt NegInf b = True"
| "float_lt PosInf b = False"
| "float_lt a PosInf = True"

definition float_le :: "pyfloat \<Rightarrow> pyfloat \<Rightarrow> bool" where
  "float_le a b = (a \<noteq> NaN \<and> b \<noteq> NaN \<and> \<not> float_lt b a)"

text \<open>\<^verbatim>\<open>a * b\<close> on floats; an \<^verbatim>\<open>int\<close> operand such as 100 is converted first.\<close>

fun float_mul :: "pyfloat \<Rightarrow> pyfloat \<Rightarrow> pyfloat" where
  "float_mul NaN b = NaN"
| "float_mul a NaN = NaN"
| "float_mul (Finite a) (Finite b) = float_round (a * b)"
| "float_mul (Finite a) PosInf = (if a = 0 then NaN else if 0 < a then PosInf else NegInf)"
| "float_mul (Finite a) NegInf = (if a = 0 then NaN else if 0 < a then NegInf else PosInf)"
| "float_mul PosInf (Finite b) = (if b = 0 then NaN else if 0 < b then PosInf else NegInf)"
| "float_mul NegInf (Finite b) = (if b = 0 then NaN else if 0 < b then NegInf else PosInf)"
| "float_mul PosInf PosInf = PosInf"
| "float_mul PosInf NegInf = NegInf"
| "float_mul NegInf PosInf = NegInf"
| "float_mul NegInf NegInf = PosInf"

text \<open>\<^verbatim>\<open>elapsed / 3600\<close>, a float divided by the integer 3600.\<close>

fun float_div_3600 :: "pyfloat \<Rightarrow> pyfloat" where
  "float_div_3600 (Finite a) = float_round (a / 3600)"
| "float_div_3600 PosInf = PosInf"
| "float_div_3600 NegInf = NegInf"
| "float_div_3600 NaN = NaN"

text \<open>
  \<^verbatim>\<open>int(x)\<close> on a float truncates towards zero; it raises \<^verbatim>\<open>ValueError\<close> for NaN and
  \<^verbatim>\<open>OverflowError\<close> for an infinity.
\<close>

fun int_of_float :: "pyfloat \<Rightarrow> py_exn + int" where
  "int_of_float (Finite x) = Inr (if 0 \<le> x then \<lfloor>x\<rfloor> else \<lceil>x\<rceil>)"
| "int_of_float NaN = Inl ValueError"
| "int_of_float PosInf = Inl OverflowError"
| "int_of_float NegInf = Inl OverflowError"

text \<open>
  \<^verbatim>\<open>float(n)\<close> for an \<^verbatim>\<open>int\<close>, as a format with \<^verbatim>\<open>f\<close> does it: the nearest float,
  or \<^verbatim>\<open>OverflowError\<close> when the integer is too large for one.
\<close>

definition float_of_int :: "int \<Rightarrow> py_exn + pyfloat" where
  "float_of_int n =
     (case float_round (of_int n) of Finite q \<Rightarrow> Inr (Finite q) | _ \<Rightarrow> Inl OverflowError)"

subsection \<open>Strings of numbers\<close>

text \<open>
  A \<open>char\<close> stands for one character of a Python string. \<^verbatim>\<open>str(n)\<close> on an
  \<^verbatim>\<open>int\<close>: decimal digits, a minus sign when negative.
\<close>

definition digit_char :: "int \<Rightarrow> char" where
  "digit_char d =
     (if d = 0 then CHR ''0'' else if d = 1 then CHR ''1'' else if d = 2 then CHR ''2''
      else if d = 3 then CHR ''3'' else if d = 4 then CHR ''4'' else if d = 5 then CHR ''5''
      else if d = 6 then CHR ''6'' else if d = 7 then CHR ''7'' else if d = 8 then CHR ''8''
      else CHR ''9'')"

function str_digits :: "int \<Rightarrow> string" where
  "str_digits n =
     (if n < 10 then [digit_char n] else str_digits (n div 10) @ [digit_char (n mod 10)])"
  by pat_completeness auto
termination
  by (relation "measure nat") (auto simp: int_div_less_self)

declare str_digits.simps [simp del]

definition str_int :: "int \<Rightarrow> string" where
  "str_int i = (if i < 0 then ''-'' @ str_digits (- i) else str_digits i)"

text \<open>
  \<^verbatim>\<open>f"{x:.0e}"\<close>: one significant digit of the exact value, rounded half to even, then
  \<^verbatim>\<open>e\<close>, the sign of the exponent and at least two exponent digits; \<^verbatim>\<open>nan\<close>,
  \<^verbatim>\<open>inf\<close> and \<^verbatim>\<open>-inf\<close> for the values that are not finite.
\<close>

fun format_0e :: "pyfloat \<Rightarrow> string" where
  "format_0e NaN = ''nan''"
| "format_0e PosInf = ''inf''"
| "format_0e NegInf = ''-inf''"
| "format_0e (Finite x) =
     (if x = 0 then ''0e+00''
      else let a = \<bar>x\<bar>; e0 = ilog 10 a; m0 = round_half_even (a / pow_int 10 e0);
               m = (if m0 = 10 then 1 else m0); e = (if m0 = 10 then e0 + 1 else e0)
           in (if x < 0 then ''-'' else '''') @ str_int m @ ''e''
              @ (if e < 0 then ''-'' else ''+'')
              @ (if \<bar>e\<bar> < 10 then ''0'' else '''') @ str_int \<bar>e\<bar>)"

section \<open>Job configurations\<close>

text \<open>
  A job configuration is the dictionary \<^verbatim>\<open>{'r': .., 'alpha': .., 'lr': .., 'dropout': ..}\<close>;
  \<^verbatim>\<open>r\<close> and \<^verbatim>\<open>alpha\<close> are integers, \<^verbatim>\<open>lr\<close> and \<^verbatim>\<open>dropout\<close> floats. The field
  \<open>cfg_r\<close> is the entry \<^verbatim>\<open>config['r']\<close>, and so on.
\<close>

record config =
  cfg_r :: int
  cfg_alpha :: int
  cfg_lr :: pyfloat
  cfg_dropout :: pyfloat

text \<open>\<open>mk_config r a l d\<close> is the literal \<^verbatim>\<open>{'r': r, 'alpha': a, 'lr': l, 'dropout': d}\<close>
  whose float literals \<open>l\<close> and \<open>d\<close> are given by their decimal value.\<close>

definition mk_config :: "int \<Rightarrow> int \<Rightarrow> rat \<Rightarrow> rat \<Rightarrow> config" where
  "mk_config r a l d =
     \<lparr>cfg_r = r, cfg_alpha = a, cfg_lr = float_round l, cfg_dropout = float_round d\<rparr>"

subsection \<open>generate_sweep.py: the tier of a configuration\<close>

definition BASELINE :: int where "BASELINE = 1"
definition PROMISING :: int where "PROMISING = 2"
definition LONGSHOT :: int where "LONGSHOT = 3"

definition assign_tier :: "config \<Rightarrow> int \<times> string" where
  "assign_tier c =
     (if cfg_r c = 16 then
        (BASELINE, ''baseline-variation: r=16 proven effective, needs fast feedback'')
      else if cfg_r c = 32 then
        (if cfg_alpha c = 128 \<or> float_le (float_round (15 / 100)) (cfg_dropout c)
            \<or> float_le (cfg_lr c) (float_round (1 / 100000))
         then (LONGSHOT, ''longshot: r=32 with aggressive/unconventional settings'')
         else (PROMISING, ''promising: r=32 with standard hyperparameters''))
      else (PROMISING, ''promising: r='' @ str_int (cfg_r c) @ '' unusual configuration''))"

subsection \<open>spatial-router.py: the job name and the configured campaign\<close>

text \<open>
  The name is an f-string; its last field \<^verbatim>\<open>int(config['dropout']*100)\<close> raises when
  the product is not finite, and then no name is made.
\<close>

definition generate_job_name :: "config \<Rightarrow> py_exn + string" where
  "generate_job_name c =
     (case int_of_float (float_mul (cfg_dropout c) (Finite 100)) of
        Inl e \<Rightarrow> Inl e
      | Inr d \<Rightarrow>
          Inr (''lora-r'' @ str_int (cfg_r c) @ ''-a'' @ str_int (cfg_alpha c)
               @ ''-lr'' @ format_0e (cfg_lr c) @ ''-d'' @ str_int d))"

definition EXPERIMENT_CONFIGS :: "config list" where
  "EXPERIMENT_CONFIGS =
     [mk_config 16 32 (1 / 10000) (1 / 10),
      mk_config 16 64 (1 / 10000) (1 / 10),
      mk_config 16 128 (1 / 10000) (1 / 10),
      mk_config 16 32 (5 / 100000) (1 / 10),
      mk_config 16 64 (5 / 100000) (1 / 10),
      mk_config 16 32 (1 / 10000) (5 / 100),
      mk_config 16 32 (1 / 10000) (15 / 100),
      mk_config 16 32 (1 / 100000) (1 / 10),
      mk_config 32 32 (1 / 10000) (1 / 10),
      mk_config 32 32 (1 / 10000) (15 / 100),
      mk_config 32 32 (5 / 100000) (15 / 100),
      mk_config 32 64 (1 / 10000) (5 / 100),
      mk_config 32 64 (1 / 10000) (1 / 10),
      mk_config 32 64 (1 / 10000) (15 / 100),
      mk_config 32 64 (1 / 100000) (1 / 10),
      mk_config 32 128 (1 / 10000) (1 / 10),
      mk_config 32 64 (5 / 100000) (1 / 10),
      mk_config 32 128 (5 / 100000) (1 / 10),
      mk_config 32 128 (1 / 100000) (1 / 10),
      mk_config 32 128 (1 / 10000) (5 / 100),
      mk_config 32 128 (1 / 10000) (15 / 100)]"

definition SUBMISSION_INTERVAL_HOURS :: int where
  "SUBMISSION_INTERVAL_HOURS = 2"

definition TOTAL_JOBS :: nat where
  "TOTAL_JOBS = length EXPERIMENT_CONFIGS"

section \<open>spatial-router.py: telemetry and region selection\<close>

subsection \<open>Decoded JSON\<close>

text \<open>
  What \<^verbatim>\<open>response.json()\<close> can return: \<^verbatim>\<open>None\<close>, a \<^verbatim>\<open>bool\<close>, an \<^verbatim>\<open>int\<close>, a
  \<^verbatim>\<open>float\<close> (the decoder accepts \<^verbatim>\<open>NaN\<close> and \<^verbatim>\<open>Infinity\<close>, and a literal too large
  for a float is an infinity), a \<^verbatim>\<open>str\<close>, a \<^verbatim>\<open>list\<close>, or a \<^verbatim>\<open>dict\<close> with string keys.
  A \<open>PDict\<close> lists the members of the object in the order of the text; where a key
  repeats, the decoder keeps the last value, and so does \<open>dict_get\<close>.
\<close>

datatype pyval =
    PNone
  | PBool bool
  | PInt int
  | PFloat pyfloat
  | PStr string
  | PList "pyval list"
  | PDict "(string \<times> pyval) list"

definition dict_get :: "(string \<times> pyval) list \<Rightarrow> string \<Rightarrow> pyval option" where
  "dict_get d k = map_of (rev d) k"

text \<open>
  The value of a number: \<^verbatim>\<open>bool\<close> is a subclass of \<^verbatim>\<open>int\<close> with \<^verbatim>\<open>True == 1\<close>, and
  Python compares an \<^verbatim>\<open>int\<close> with a \<^verbatim>\<open>float\<close> by their exact values.
\<close>

fun num_val :: "pyval \<Rightarrow> pyfloat option" where
  "num_val (PBool b) = Some (Finite (if b then 1 else 0))"
| "num_val (PInt i) = Some (Finite (of_int i))"
| "num_val (PFloat f) = Some f"
| "num_val v = None"

text \<open>\<^verbatim>\<open>s < t\<close> on strings: the first differing character decides, else the length.\<close>

fun str_lt :: "string \<Rightarrow> string \<Rightarrow> bool" where
  "str_lt [] [] = False"
| "str_lt [] (y # ys) = True"
| "str_lt (x # xs) [] = False"
| "str_lt (x # xs) (y # ys) =
     (if x = y then str_lt xs ys else (of_char x :: nat) < of_char y)"

text \<open>
  \<open>py_eq\<close> is the test a list or dictionary comparison applies to two elements: the
  same object, or equal by \<^verbatim>\<open>==\<close>. Numbers are equal when their values are; the
  decoder has one NaN object, which is the same as itself; values of different kinds
  are unequal. Lists are equal when they have the same length and equal elements,
  dictionaries when they have the same keys with equal values.
\<close>

fun py_eq :: "pyval \<Rightarrow> pyval \<Rightarrow> bool"
  and py_eq_list :: "pyval list \<Rightarrow> pyval list \<Rightarrow> bool"
  and dict_sub :: "(string \<times> pyval) list \<Rightarrow> (string \<times> pyval) list \<Rightarrow> bool"
  and has_eq :: "string \<Rightarrow> pyval \<Rightarrow> (string \<times> pyval) list \<Rightarrow> bool" where
  "py_eq PNone b = (b = PNone)"
| "py_eq (PStr s) b = (b = PStr s)"
| "py_eq (PBool x) b = (num_val b = Some (Finite (if x then 1 else 0)))"
| "py_eq (PInt i) b = (num_val b = Some (Finite (of_int i)))"
| "py_eq (PFloat f) b = (num_val b = Some f)"
| "py_eq (PList xs) b = (case b of PList ys \<Rightarrow> py_eq_list xs ys | _ \<Rightarrow> False)"
| "py_eq (PDict d) b =
     (case b of
        PDict d' \<Rightarrow>
          length (remdups (map fst d)) = length (remdups (map fst d')) \<and> dict_sub d d'
      | _ \<Rightarrow> False)"
| "py_eq_list [] ys = (ys = [])"
| "py_eq_list (x # xs) ys =
     (case ys of [] \<Rightarrow> False | y # ys' \<Rightarrow> py_eq x y \<and> py_eq_list xs ys')"
| "dict_sub [] d' = True"
| "dict_sub ((k, v) # rest) d' =
     ((k \<in> fst ` set rest \<or> has_eq k v d') \<and> dict_sub rest d')"
| "has_eq k v [] = False"
| "has_eq k v ((k', v') # rest) =
     (if k \<in> fst ` set rest then has_eq k v rest else k = k' \<and> py_eq v v')"

text \<open>
  \<^verbatim>\<open>a < b\<close>: numbers by value, strings and lists lexicographically (a list
  comparison skips the leading elements that are \<open>py_eq\<close>, then compares the first
  pair that is not, or the lengths); every other pair of operands raises
  \<^verbatim>\<open>TypeError\<close>.
\<close>

fun py_lt :: "pyval \<Rightarrow> pyval \<Rightarrow> py_exn + bool"
  and py_lt_list :: "pyval list \<Rightarrow> pyval list \<Rightarrow> py_exn + bool" where
  "py_lt (PList xs) b = (case b of PList ys \<Rightarrow> py_lt_list xs ys | _ \<Rightarrow> Inl TypeError)"
| "py_lt (PStr s) b = (case b of PStr t \<Rightarrow> Inr (str_lt s t) | _ \<Rightarrow> Inl TypeError)"
| "py_lt (PDict d) b = Inl TypeError"
| "py_lt PNone b = Inl TypeError"
| "py_lt (PBool x) b =
     (case num_val b of Some y \<Rightarrow> Inr (float_lt (Finite (if x then 1 else 0)) y)
      | None \<Rightarrow> Inl TypeError)"
| "py_lt (PInt i) b =
     (case num_val b of Some y \<Rightarrow> Inr (float_lt (Finite (of_int i)) y)
      | None \<Rightarrow> Inl TypeError)"
| "py_lt (PFloat f) b =
     (case num_val b of Some y \<Rightarrow> Inr (float_lt f y) | None \<Rightarrow> Inl TypeError)"
| "py_lt_list [] ys = Inr (ys \<noteq> [])"
| "py_lt_list (x # xs) ys =
     (case ys of
        [] \<Rightarrow> Inr False
      | y # ys' \<Rightarrow> if py_eq x y then py_lt_list xs ys' else py_lt x y)"

text \<open>A reading that is a number other than NaN: numbers of this kind are totally ordered.\<close>

definition ordered_number :: "pyval \<Rightarrow> bool" where
  "ordered_number v = (case num_val v of None \<Rightarrow> False | Some x \<Rightarrow> x \<noteq> NaN)"

subsection \<open>The regions and the data source\<close>

record region_config =
  zone :: string
  ip :: string
  description :: string

text \<open>
  The table \<^verbatim>\<open>REGIONS\<close> is a dictionary: an association list in insertion order (the
  order of declaration), with pairwise different keys. The functions below take the
  table as an argument; \<open>REGIONS\<close> is the table the file declares.
\<close>

type_synonym regions = "(string \<times> region_config) list"

definition REGIONS :: regions where
  "REGIONS =
     [(''quebec'', \<lparr>zone = ''CA-QC'', ip = ''100.65.196.126'',
         description = ''Quebec, Canada - Hydro-dominated grid''\<rparr>),
      (''ohio'', \<lparr>zone = ''US-MIDA-PJM'', ip = ''100.x.x.x'',
         description = ''Ohio, USA - Fossil-heavy grid (baseline)''\<rparr>),
      (''nordic'', \<lparr>zone = ''NO'', ip = ''100.80.123.80'',
         description = ''Nordic - Hydro-dominated grid''\<rparr>)]"

text \<open>
  What one call \<^verbatim>\<open>requests.get(...)\<close> followed by \<^verbatim>\<open>raise_for_status()\<close> and
  \<^verbatim>\<open>json()\<close> meets:
  \<^item> \<open>RequestFailed\<close>: \<^verbatim>\<open>requests.get\<close> raises a \<^verbatim>\<open>RequestException\<close> (no connection,
    the 10 second timeout, ...);
  \<^item> \<open>HttpErrorStatus\<close>: a 4xx or 5xx answer (a rejected token is 401), for which
    \<^verbatim>\<open>raise_for_status\<close> raises \<^verbatim>\<open>HTTPError\<close>, a \<^verbatim>\<open>RequestException\<close>;
  \<^item> \<open>BodyNotJson\<close>: the body does not parse, and \<^verbatim>\<open>json()\<close> raises the library's
    \<^verbatim>\<open>JSONDecodeError\<close>, a \<^verbatim>\<open>RequestException\<close>;
  \<^item> \<open>Body\<close>: the body parses, and \<^verbatim>\<open>json()\<close> returns the decoded value.
\<close>

datatype http_outcome =
    RequestFailed string
  | HttpErrorStatus nat
  | BodyNotJson
  | Body pyval

text \<open>The data source as it answers at one moment: what a query for a zone meets.\<close>

type_synonym api = "string \<Rightarrow> http_outcome"

text \<open>
  The function returns \<^verbatim>\<open>None\<close> (\<open>PNone\<close>) for a \<^verbatim>\<open>RequestException\<close> and whatever
  the answer holds under \<^verbatim>\<open>carbonIntensity\<close> otherwise. The subscript raises
  \<^verbatim>\<open>KeyError\<close> on a dictionary without the key and \<^verbatim>\<open>TypeError\<close> on a value that is
  no dictionary.
\<close>

definition get_carbon_intensity :: "api \<Rightarrow> string \<Rightarrow> py_exn + pyval" where
  "get_carbon_intensity a z =
     (case a z of
        RequestFailed m \<Rightarrow> Inr PNone
      | HttpErrorStatus code \<Rightarrow> Inr PNone
      | BodyNotJson \<Rightarrow> Inr PNone
      | Body (PDict d) \<Rightarrow>
          (case dict_get d ''carbonIntensity'' of
             None \<Rightarrow> Inl (KeyError ''carbonIntensity'')
           | Some v \<Rightarrow> Inr v)
      | Body v \<Rightarrow> Inl TypeError)"

text \<open>
  A snapshot is the dictionary \<^verbatim>\<open>intensities\<close>, region to reading or \<^verbatim>\<open>None\<close>, in
  insertion order. \<open>AList.update\<close> is the assignment \<^verbatim>\<open>d[k] = v\<close>: it replaces the
  value of a key that is there and appends a new key at the end.
\<close>

type_synonym snapshot = "(string \<times> pyval) list"

fun get_all_intensities_loop :: "api \<Rightarrow> regions \<Rightarrow> snapshot \<Rightarrow> py_exn + snapshot" where
  "get_all_intensities_loop a [] acc = Inr acc"
| "get_all_intensities_loop a ((region, c) # rest) acc =
     (case get_carbon_intensity a (zone c) of
        Inl e \<Rightarrow> Inl e
      | Inr intensity \<Rightarrow> get_all_intensities_loop a rest (AList.update region intensity acc))"

definition get_all_intensities :: "regions \<Rightarrow> api \<Rightarrow> py_exn + snapshot" where
  "get_all_intensities rs a = get_all_intensities_loop a rs []"

text \<open>\<^verbatim>\<open>{k: v for k, v in intensities.items() if v is not None}\<close>\<close>

definition valid_readings :: "snapshot \<Rightarrow> snapshot" where
  "valid_readings ints = filter (\<lambda>p. snd p \<noteq> PNone) ints"

text \<open>
  \<^verbatim>\<open>min(valid, key=valid.get)\<close> walks the keys in order and keeps the first key seen so
  far whose value is smallest: a later key replaces it only when \<^verbatim>\<open>value < best\<close>
  holds, and a comparison that raises ends the walk.
\<close>

fun min_loop :: "string \<times> pyval \<Rightarrow> snapshot \<Rightarrow> py_exn + string \<times> pyval" where
  "min_loop best [] = Inr best"
| "min_loop best (x # xs) =
     (case py_lt (snd x) (snd best) of
        Inl e \<Rightarrow> Inl e
      | Inr smaller \<Rightarrow> min_loop (if smaller then x else best) xs)"

definition pick_cleanest_region :: "regions \<Rightarrow> api \<Rightarrow> py_exn + string \<times> snapshot" where
  "pick_cleanest_region rs a =
     (case get_all_intensities rs a of
        Inl e \<Rightarrow> Inl e
      | Inr ints \<Rightarrow>
          (case valid_readings ints of
             [] \<Rightarrow> Inl (RuntimeError ''Could not get carbon intensity for any region!'')
           | x # xs \<Rightarrow>
               (case min_loop x xs of
                  Inl e \<Rightarrow> Inl e
                | Inr best \<Rightarrow> Inr (fst best, ints))))"

text \<open>
  \<^verbatim>\<open>print_intensity_report\<close> prints; what matters here is whether it returns. It sorts
  the readings that are not \<^verbatim>\<open>None\<close> and, for each, evaluates \<^verbatim>\<open>intensity < 100\<close> and
  formats it with \<^verbatim>\<open>6.1f\<close>. A reading that is no number raises \<^verbatim>\<open>TypeError\<close>, in the
  sort or in the comparison with 100; among numbers, an \<^verbatim>\<open>int\<close> too large for a float
  raises \<^verbatim>\<open>OverflowError\<close> in the format. The result is the exception, or \<open>None\<close>
  when the function returns.
\<close>

definition print_intensity_report :: "snapshot \<Rightarrow> py_exn option" where
  "print_intensity_report ints =
     (let vals = map snd (valid_readings ints)
      in if list_ex (\<lambda>v. num_val v = None) vals then Some TypeError
         else if list_ex (\<lambda>v. case v of PInt i \<Rightarrow> float_of_int i = Inl OverflowError
                                | _ \<Rightarrow> False) vals
         then Some OverflowError
         else None)"

subsection \<open>Telemetry scenarios\<close>

text \<open>
  Answers of the data source used to run the definitions: a successful answer with a
  given reading (only the member the router reads is listed), the three zones of
  \<open>REGIONS\<close> answering 40, 350 and 25, a tie between the first and the last zone, the
  first zone answering NaN, an outage in which every request fails, and answers with
  the empty JSON object.
\<close>

definition reading :: "pyval \<Rightarrow> http_outcome" where
  "reading v = Body (PDict [(''carbonIntensity'', v)])"

definition scenario_A :: api where
  "scenario_A z =
     (if z = ''CA-QC'' then reading (PInt 40)
      else if z = ''US-MIDA-PJM'' then reading (PInt 350)
      else if z = ''NO'' then reading (PInt 25) else HttpErrorStatus 404)"

definition scenario_tie :: api where
  "scenario_tie z =
     (if z = ''CA-QC'' then reading (PInt 25)
      else if z = ''US-MIDA-PJM'' then reading (PInt 350)
      else if z = ''NO'' then reading (PFloat (Finite 25)) else HttpErrorStatus 404)"

definition scenario_nan :: api where
  "scenario_nan z =
     (if z = ''CA-QC'' then reading (PFloat NaN)
      else if z = ''US-MIDA-PJM'' then reading (PInt 350)
      else if z = ''NO'' then reading (PInt 25) else HttpErrorStatus 404)"

definition scenario_outage :: api where
  "scenario_outage z = RequestFailed ''connection refused''"

definition scenario_empty_body :: api where
  "scenario_empty_body z = Body (PDict [])"

definition snapshot_A :: snapshot where
  "snapshot_A = [(''quebec'', PInt 40), (''ohio'', PInt 350), (''nordic'', PInt 25)]"

section \<open>spatial-router.py: job submission\<close>

text \<open>
  What the remote command does once \<^verbatim>\<open>subprocess.run\<close> has started it: it terminates
  after some seconds with an exit code, an output and an error output
  (\<open>Terminates\<close>), or it never terminates (\<open>Never\<close>); or it cannot be started at
  all, and \<^verbatim>\<open>subprocess.run\<close> raises an \<^verbatim>\<open>Exception\<close> such as
  \<^verbatim>\<open>FileNotFoundError\<close>, whose text the constructor carries (\<open>Launch_fails\<close>).
\<close>

datatype command_run =
    Terminates rat int string string
  | Never
  | Launch_fails string

text \<open>
  What \<^verbatim>\<open>subprocess.run(ssh_cmd, capture_output=True, text=True, timeout=t)\<close> does:
  it returns with the exit code and the captured outputs (\<open>Exited\<close>), or raises
  \<^verbatim>\<open>subprocess.TimeoutExpired\<close> (\<open>TimeoutExpired\<close>) or another \<^verbatim>\<open>Exception\<close>
  (\<open>Raised\<close>); the strings of the last two are \<^verbatim>\<open>str(e)\<close>. A
  \<^verbatim>\<open>KeyboardInterrupt\<close>, which is no \<^verbatim>\<open>Exception\<close>, ends the process and is not an
  outcome here.

  The documentation of the standard library fixes the time limit: the timeout is
  passed to \<^verbatim>\<open>Popen.communicate\<close>, and \<^emph>\<open>if the process does not terminate after
  timeout seconds, a TimeoutExpired exception will be raised\<close>. A command that has
  terminated when the \<open>t\<close> seconds are over, also at that very moment, is not timed
  out (the implementation tests \<^verbatim>\<open>_time() > endtime\<close>); one that takes longer is.
  The text of the exception names the command line, which is not modelled, and is
  taken from the environment.
\<close>

datatype proc_outcome =
    Exited int string string
  | TimeoutExpired string
  | Raised string

definition subprocess_run :: "rat \<Rightarrow> string \<Rightarrow> command_run \<Rightarrow> proc_outcome" where
  "subprocess_run t text c =
     (case c of
        Terminates seconds returncode out err \<Rightarrow>
          if seconds \<le> t then Exited returncode out err else TimeoutExpired text
      | Never \<Rightarrow> TimeoutExpired text
      | Launch_fails m \<Rightarrow> Raised m)"

text \<open>
  A log entry is a dictionary with a fixed set of possible keys; a key that is not in
  the dictionary is \<open>None\<close> here. \<^verbatim>\<open>timestamp\<close>, \<^verbatim>\<open>job_index\<close>, \<^verbatim>\<open>config\<close> and
  \<^verbatim>\<open>status\<close> are in every entry the router builds.
\<close>

record log_entry =
  timestamp :: string
  job_index :: nat
  job_id :: "string option"
  job_name :: "string option"
  config :: config
  selected_region :: "string option"
  intensities :: "snapshot option"
  region_zone :: "string option"
  status :: string
  elapsed_seconds :: "pyfloat option"
  elapsed_hours :: "pyfloat option"
  error :: "string option"

text \<open>
  What one scheduling tick reads from outside the program: the answers of the data
  source, the clock as \<^verbatim>\<open>strftime('%Y%m%d%H%M%S')\<close> and as \<^verbatim>\<open>isoformat()\<close>, what
  the remote command of this tick does, the text of a \<^verbatim>\<open>TimeoutExpired\<close>, and the
  seconds that \<^verbatim>\<open>time.time() - start_time\<close> measures when \<^verbatim>\<open>subprocess.run\<close> has
  returned. The command line is built from the region, the reading and the
  configuration and is handed to \<^verbatim>\<open>subprocess.run\<close>; building it raises nothing, the
  router never reads it back, and it is not modelled, nor is the text printed to the
  console.
\<close>

record tick_env =
  api_now :: api
  stamp :: string
  iso_now :: string
  remote :: command_run
  timeout_text :: string
  elapsed_time :: pyfloat

text \<open>The entry both submit functions start from; they differ in the first status.\<close>

definition submitted_entry ::
  "tick_env \<Rightarrow> string \<Rightarrow> region_config \<Rightarrow> string \<Rightarrow> config \<Rightarrow> snapshot \<Rightarrow> nat \<Rightarrow> string
     \<Rightarrow> log_entry" where
  "submitted_entry te region rc name cfg ints idx st =
     \<lparr>timestamp = iso_now te, job_index = idx,
      job_id = Some (name @ ''-'' @ stamp te),
      job_name = Some name, config = cfg,
      selected_region = Some region, intensities = Some ints,
      region_zone = Some (zone rc), status = st,
      elapsed_seconds = None, elapsed_hours = None, error = None\<rparr>"

text \<open>\<^verbatim>\<open>s[-n:]\<close>, the last \<open>n\<close> characters of \<open>s\<close> (all of \<open>s\<close> when it is shorter).\<close>

definition last_chars :: "nat \<Rightarrow> string \<Rightarrow> string" where
  "last_chars n s = drop (length s - n) s"

text \<open>
  Both submit functions first make the job name, which may raise, then read
  \<^verbatim>\<open>REGIONS[region]\<close>, which raises \<^verbatim>\<open>KeyError\<close> for an unknown region; both
  happen before the \<^verbatim>\<open>try\<close> block. The blocking call has a limit of
  \<^verbatim>\<open>4 * 3600\<close> seconds, the other one of 60.
\<close>

definition submit_job_ssh ::
  "regions \<Rightarrow> tick_env \<Rightarrow> string \<Rightarrow> config \<Rightarrow> snapshot \<Rightarrow> nat \<Rightarrow> py_exn + log_entry" where
  "submit_job_ssh rs te region cfg ints idx =
     (case generate_job_name cfg of
        Inl e \<Rightarrow> Inl e
      | Inr name \<Rightarrow>
     (case map_of rs region of
        None \<Rightarrow> Inl (KeyError region)
      | Some rc \<Rightarrow>
          (let entry = submitted_entry te region rc name cfg ints idx ''submitted''
           in Inr (case subprocess_run (4 * 3600) (timeout_text te) (remote te) of
                Exited returncode out err \<Rightarrow>
                  (let timed = entry\<lparr>elapsed_seconds := Some (elapsed_time te),
                         elapsed_hours := Some (float_div_3600 (elapsed_time te))\<rparr>
                   in if returncode = 0 then timed\<lparr>status := ''completed''\<rparr>
                      else timed\<lparr>status := ''failed'',
                             error := Some (if err \<noteq> [] then last_chars 1000 err
                                            else ''Unknown error'')\<rparr>)
              | TimeoutExpired m \<Rightarrow> entry\<lparr>status := ''timeout''\<rparr>
              | Raised m \<Rightarrow> entry\<lparr>status := ''error'', error := Some m\<rparr>))))"

definition submit_job_async ::
  "regions \<Rightarrow> tick_env \<Rightarrow> string \<Rightarrow> config \<Rightarrow> snapshot \<Rightarrow> nat \<Rightarrow> py_exn + log_entry" where
  "submit_job_async rs te region cfg ints idx =
     (case generate_job_name cfg of
        Inl e \<Rightarrow> Inl e
      | Inr name \<Rightarrow>
     (case map_of rs region of
        None \<Rightarrow> Inl (KeyError region)
      | Some rc \<Rightarrow>
          (let entry = submitted_entry te region rc name cfg ints idx ''submitted_async''
           in Inr (case subprocess_run 60 (timeout_text te) (remote te) of
                Exited returncode out err \<Rightarrow>
                  (if returncode = 0 then entry
                   else entry\<lparr>status := ''submit_failed'', error := Some err\<rparr>)
              | TimeoutExpired m \<Rightarrow> entry\<lparr>status := ''error'', error := Some m\<rparr>
              | Raised m \<Rightarrow> entry\<lparr>status := ''error'', error := Some m\<rparr>))))"

section \<open>spatial-router.py: the experiment runner\<close>

text \<open>
  \<^verbatim>\<open>wait_until_next_submission(hours)\<close> sleeps in chunks of at most 600 seconds until
  \<^verbatim>\<open>hours * 3600\<close> seconds have passed; the result is the list of the sleeps. It is
  called with the integer \<^verbatim>\<open>SUBMISSION_INTERVAL_HOURS\<close>.
\<close>

function wait_loop :: "int \<Rightarrow> int \<Rightarrow> int list" where
  "wait_loop total_seconds elapsed =
     (if elapsed < total_seconds
      then min 600 (total_seconds - elapsed)
           # wait_loop total_seconds (elapsed + min 600 (total_seconds - elapsed))
      else [])"
  by pat_completeness auto
termination
  by (relation "measure (\<lambda>(total_seconds, elapsed). nat (total_seconds - elapsed))") auto

declare wait_loop.simps [simp del]

definition wait_until_next_submission :: "int \<Rightarrow> int list" where
  "wait_until_next_submission hours = wait_loop (hours * 3600) 0"

text \<open>
  What the runner does that can be seen from outside, in order: a call of the submit
  function that reached \<^verbatim>\<open>subprocess.run\<close> (region, job index, configuration), a line
  appended to the log file, a wait. A run ends because the loop is through
  (\<open>Completed\<close>), because the operator did not confirm the placeholder addresses
  (\<open>Declined\<close>, the early \<^verbatim>\<open>return\<close>), or because an exception left the function
  (\<open>Crashed\<close>).
\<close>

datatype event = Dispatch string nat config | LogAppend log_entry | Wait "int list"

datatype ending = Completed | Declined | Crashed py_exn

definition skipped_entry :: "tick_env \<Rightarrow> nat \<Rightarrow> config \<Rightarrow> log_entry" where
  "skipped_entry te idx cfg =
     \<lparr>timestamp = iso_now te, job_index = idx, job_id = None, job_name = None,
      config = cfg, selected_region = None, intensities = None, region_zone = None,
      status = ''skipped_api_error'',
      elapsed_seconds = None, elapsed_hours = None, error = None\<rparr>"

text \<open>The wait after tick \<open>i\<close> of \<open>n\<close>: \<^verbatim>\<open>if i < len(EXPERIMENT_CONFIGS) - 1\<close>.\<close>

definition wait_after :: "nat \<Rightarrow> nat \<Rightarrow> event list" where
  "wait_after n i =
     (if int i < int n - 1 then [Wait (wait_until_next_submission SUBMISSION_INTERVAL_HOURS)]
      else [])"

text \<open>
  One pass through the body of the loop, for job \<open>i\<close>: the events, and the exception
  that left the body if one did. Only a \<^verbatim>\<open>RuntimeError\<close> of the selection is caught;
  the report is printed between the selection and the submission. Appending a line to
  the log file is taken to succeed: \<^verbatim>\<open>json.dumps\<close> accepts every entry the router
  builds (NaN and the infinities included), and a failure of the file system is not
  modelled.
\<close>

definition run_tick ::
  "regions \<Rightarrow> bool \<Rightarrow> tick_env \<Rightarrow> nat \<Rightarrow> nat \<Rightarrow> config \<Rightarrow> event list \<times> py_exn option" where
  "run_tick rs async_mode te n i cfg =
     (case pick_cleanest_region rs (api_now te) of
        Inl (RuntimeError m) \<Rightarrow> (LogAppend (skipped_entry te i cfg) # wait_after n i, None)
      | Inl e \<Rightarrow> ([], Some e)
      | Inr (region, ints) \<Rightarrow>
          (case print_intensity_report ints of
             Some e \<Rightarrow> ([], Some e)
           | None \<Rightarrow>
               (case (if async_mode then submit_job_async else submit_job_ssh)
                       rs te region cfg ints i of
                  Inl e \<Rightarrow> ([], Some e)
                | Inr entry \<Rightarrow>
                    (Dispatch region i cfg # LogAppend entry # wait_after n i, None))))"

fun run_loop ::
  "regions \<Rightarrow> bool \<Rightarrow> (nat \<Rightarrow> tick_env) \<Rightarrow> nat \<Rightarrow> (nat \<times> config) list \<Rightarrow> event list \<times> ending" where
  "run_loop rs async_mode ticks n [] = ([], Completed)"
| "run_loop rs async_mode ticks n ((i, cfg) # rest) =
     (case run_tick rs async_mode (ticks i) n i cfg of
        (evs, Some e) \<Rightarrow> (evs, Crashed e)
      | (evs, None) \<Rightarrow>
          (evs @ fst (run_loop rs async_mode ticks n rest),
           snd (run_loop rs async_mode ticks n rest)))"

text \<open>\<^verbatim>\<open>sub in s\<close> on strings, and \<^verbatim>\<open>response.lower() == 'y'\<close>.\<close>

fun contains :: "string \<Rightarrow> string \<Rightarrow> bool" where
  "contains sub [] = (sub = [])"
| "contains sub (c # cs) = (take (length sub) (c # cs) = sub \<or> contains sub cs)"

definition answers_yes :: "string \<Rightarrow> bool" where
  "answers_yes response = (response = ''y'' \<or> response = ''Y'')"

text \<open>
  \<open>run_experiment\<close> takes the region table and the list of configurations as
  arguments (the file reads the globals \<open>REGIONS\<close> and \<open>EXPERIMENT_CONFIGS\<close>), the
  environment of every tick, and the line the operator types at the prompt (the
  prompt is shown only when some address is a placeholder, and is taken to return a
  line).
\<close>

definition run_experiment ::
  "regions \<Rightarrow> config list \<Rightarrow> bool \<Rightarrow> (nat \<Rightarrow> tick_env) \<Rightarrow> string \<Rightarrow> event list \<times> ending" where
  "run_experiment rs configs async_mode ticks response =
     (let unconfigured = map fst (filter (\<lambda>(r, c). contains ''100.x.x.x'' (ip c)) rs)
      in if unconfigured \<noteq> [] \<and> \<not> answers_yes response then ([], Declined)
         else run_loop rs async_mode ticks (length configs) (enumerate 0 configs))"

subsection \<open>Tick scenarios\<close>

text \<open>
  Environments used to run the definitions: a tick with given telemetry and a given
  remote command; a remote command that exits with a given code and error output after
  an hour and a half; a campaign in which the data source is down during the second
  tick (job index 1) and every command exits with 0; the first configuration of the
  campaign, and one whose dropout is infinite (as \<^verbatim>\<open>--dropout inf\<close> gives it).
\<close>

definition mk_tick :: "api \<Rightarrow> command_run \<Rightarrow> tick_env" where
  "mk_tick a c =
     \<lparr>api_now = a, stamp = ''20250101120000'', iso_now = ''2025-01-01T12:00:00'',
      remote = c, timeout_text = ''timed out'', elapsed_time = Finite 5400\<rparr>"

definition exits :: "int \<Rightarrow> string \<Rightarrow> command_run" where
  "exits returncode err = Terminates 5400 returncode [] err"

definition scenario_ticks :: "nat \<Rightarrow> tick_env" where
  "scenario_ticks i =
     mk_tick (if i = 1 then scenario_outage else scenario_A) (exits 0 [])"

definition first_config :: config where
  "first_config = mk_config 16 32 (1 / 10000) (1 / 10)"

definition infinite_dropout_config :: config where
  "infinite_dropout_config =
     \<lparr>cfg_r = 16, cfg_alpha = 32, cfg_lr = float_round (1 / 10000), cfg_dropout = PosInf\<rparr>"

section \<open>Verified properties\<close>

subsection \<open>Values of the literals\<close>

text \<open>
  The binary64 values of the float literals of the campaign (what Python's
  \<^verbatim>\<open>Fraction(1e-4)\<close> and so on print), the learning rates as \<^verbatim>\<open>.0e\<close> prints them,
  and \<^verbatim>\<open>int(dropout*100)\<close> for the three dropout values.
\<close>

lemma float_literals:
  "float_round (1 / 10000) = Finite (7378697629483821 / 73786976294838206464)"
  "float_round (5 / 100000) = Finite (7378697629483821 / 147573952589676412928)"
  "float_round (1 / 100000) = Finite (5902958103587057 / 590295810358705651712)"
  "float_round (1 / 10) = Finite (3602879701896397 / 36028797018963968)"
  "float_round (5 / 100) = Finite (3602879701896397 / 72057594037927936)"
  "float_round (15 / 100) = Finite (5404319552844595 / 36028797018963968)"
  by code_simp+

lemma format_lr:
  "format_0e (float_round (1 / 10000)) = ''1e-04''"
  "format_0e (float_round (5 / 100000)) = ''5e-05''"
  "format_0e (float_round (1 / 100000)) = ''1e-05''"
  by code_simp+

lemma dropout_percent:
  "int_of_float (float_mul (float_round (1 / 10)) (Finite 100)) = Inr 10"
  "int_of_float (float_mul (float_round (5 / 100)) (Finite 100)) = Inr 5"
  "int_of_float (float_mul (float_round (15 / 100)) (Finite 100)) = Inr 15"
  by code_simp+

lemma str_int_values:
  "str_int 5 = ''5''" "str_int 10 = ''10''" "str_int 15 = ''15''" "str_int 16 = ''16''"
  "str_int 32 = ''32''" "str_int 64 = ''64''" "str_int 128 = ''128''"
  by code_simp+

subsection \<open>Job classification\<close>

lemma tier_numbers: "BASELINE = 1 \<and> PROMISING = 2 \<and> LONGSHOT = 3"
  by (simp add: BASELINE_def PROMISING_def LONGSHOT_def)

text \<open>
  Claim C8. \<open>assign_tier\<close> is a function of the configuration alone, so equal
  configurations get equal results whatever was classified before. Its policy: rank
  \<open>r = 16\<close> gives Baseline; rank \<open>r = 32\<close> with \<open>alpha = 128\<close>, or dropout at least the
  float \<^verbatim>\<open>0.15\<close>, or learning rate at most the float \<^verbatim>\<open>1e-5\<close>, gives Longshot; rank
  \<open>r = 32\<close> otherwise (a NaN dropout or learning rate passes neither test) gives
  Promising; every other rank gives Promising with a rationale that prints the
  unusual rank.
\<close>

theorem assign_tier_policy:
  "(cfg_r c = 16 \<longrightarrow>
      assign_tier c =
        (BASELINE, ''baseline-variation: r=16 proven effective, needs fast feedback'')) \<and>
   (cfg_r c = 32 \<and> (cfg_alpha c = 128 \<or> float_le (float_round (15 / 100)) (cfg_dropout c)
        \<or> float_le (cfg_lr c) (float_round (1 / 100000))) \<longrightarrow>
      assign_tier c =
        (LONGSHOT, ''longshot: r=32 with aggressive/unconventional settings'')) \<and>
   (cfg_r c = 32 \<and> cfg_alpha c \<noteq> 128 \<and> \<not> float_le (float_round (15 / 100)) (cfg_dropout c)
        \<and> \<not> float_le (cfg_lr c) (float_round (1 / 100000)) \<longrightarrow>
      assign_tier c = (PROMISING, ''promising: r=32 with standard hyperparameters'')) \<and>
   (cfg_r c \<noteq> 16 \<and> cfg_r c \<noteq> 32 \<longrightarrow>
      assign_tier c =
        (PROMISING, ''promising: r='' @ str_int (cfg_r c) @ '' unusual configuration''))"
proof (intro conjI impI)
  assume "cfg_r c = 16"
  then show "assign_tier c =
      (BASELINE, ''baseline-variation: r=16 proven effective, needs fast feedback'')"
    by (simp add: assign_tier_def)
next
  assume "cfg_r c = 32 \<and> (cfg_alpha c = 128 \<or> float_le (float_round (15 / 100)) (cfg_dropout c)
        \<or> float_le (cfg_lr c) (float_round (1 / 100000)))"
  then show "assign_tier c =
      (LONGSHOT, ''longshot: r=32 with aggressive/unconventional settings'')"
    unfolding assign_tier_def by auto
next
  assume "cfg_r c = 32 \<and> cfg_alpha c \<noteq> 128 \<and> \<not> float_le (float_round (15 / 100)) (cfg_dropout c)
        \<and> \<not> float_le (cfg_lr c) (float_round (1 / 100000))"
  then show "assign_tier c = (PROMISING, ''promising: r=32 with standard hyperparameters'')"
    unfolding assign_tier_def by auto
next
  assume "cfg_r c \<noteq> 16 \<and> cfg_r c \<noteq> 32"
  then show "assign_tier c =
      (PROMISING, ''promising: r='' @ str_int (cfg_r c) @ '' unusual configuration'')"
    by (simp add: assign_tier_def)
qed

text \<open>The four branches at configurations of the sweep and at the rank 64.\<close>

theorem assign_tier_policy_witness:
  "assign_tier (mk_config 16 32 (1 / 10000) (1 / 10)) =
     (1, ''baseline-variation: r=16 proven effective, needs fast feedback'') \<and>
   assign_tier (mk_config 32 64 (1 / 100000) (1 / 10)) =
     (3, ''longshot: r=32 with aggressive/unconventional settings'') \<and>
   assign_tier (mk_config 32 64 (5 / 100000) (1 / 10)) =
     (2, ''promising: r=32 with standard hyperparameters'') \<and>
   assign_tier (mk_config 64 32 (1 / 10000) (1 / 10)) =
     (2, ''promising: r=64 unusual configuration'')"
proof -
  have r1: "cfg_r (mk_config 16 32 (1 / 10000) (1 / 10)) = 16"
    by (simp add: mk_config_def)
  have r2: "cfg_r (mk_config 32 64 (1 / 100000) (1 / 10)) = 32 \<and>
      float_le (cfg_lr (mk_config 32 64 (1 / 100000) (1 / 10))) (float_round (1 / 100000))"
    unfolding mk_config_def config.select_convs float_literals
    by (simp add: float_le_def)
  have r3: "cfg_r (mk_config 32 64 (5 / 100000) (1 / 10)) = 32 \<and>
      cfg_alpha (mk_config 32 64 (5 / 100000) (1 / 10)) \<noteq> 128 \<and>
      \<not> float_le (float_round (15 / 100)) (cfg_dropout (mk_config 32 64 (5 / 100000) (1 / 10))) \<and>
      \<not> float_le (cfg_lr (mk_config 32 64 (5 / 100000) (1 / 10))) (float_round (1 / 100000))"
    unfolding mk_config_def config.select_convs float_literals
    by (simp add: float_le_def)
  have r4: "cfg_r (mk_config 64 32 (1 / 10000) (1 / 10)) \<noteq> 16 \<and>
      cfg_r (mk_config 64 32 (1 / 10000) (1 / 10)) \<noteq> 32"
    by (simp add: mk_config_def)
  have s4: "str_int (cfg_r (mk_config 64 32 (1 / 10000) (1 / 10))) = ''64''"
    by code_simp
  show ?thesis
    using assign_tier_policy [of "mk_config 16 32 (1 / 10000) (1 / 10)"]
      assign_tier_policy [of "mk_config 32 64 (1 / 100000) (1 / 10)"]
      assign_tier_policy [of "mk_config 32 64 (5 / 100000) (1 / 10)"]
      assign_tier_policy [of "mk_config 64 32 (1 / 10000) (1 / 10)"]
      r1 r2 r3 r4 s4
    by (simp add: tier_numbers)
qed

subsection \<open>Job names\<close>

lemma job_names:
  "map generate_job_name EXPERIMENT_CONFIGS =
    map Inr
    [''lora-r16-a32-lr1e-04-d10'', ''lora-r16-a64-lr1e-04-d10'',
     ''lora-r16-a128-lr1e-04-d10'', ''lora-r16-a32-lr5e-05-d10'',
     ''lora-r16-a64-lr5e-05-d10'', ''lora-r16-a32-lr1e-04-d5'',
     ''lora-r16-a32-lr1e-04-d15'', ''lora-r16-a32-lr1e-05-d10'',
     ''lora-r32-a32-lr1e-04-d10'', ''lora-r32-a32-lr1e-04-d15'',
     ''lora-r32-a32-lr5e-05-d15'', ''lora-r32-a64-lr1e-04-d5'',
     ''lora-r32-a64-lr1e-04-d10'', ''lora-r32-a64-lr1e-04-d15'',
     ''lora-r32-a64-lr1e-05-d10'', ''lora-r32-a128-lr1e-04-d10'',
     ''lora-r32-a64-lr5e-05-d10'', ''lora-r32-a128-lr5e-05-d10'',
     ''lora-r32-a128-lr1e-05-d10'', ''lora-r32-a128-lr1e-04-d5'',
     ''lora-r32-a128-lr1e-04-d15'']"
  unfolding EXPERIMENT_CONFIGS_def mk_config_def generate_job_name_def list.map
    config.select_convs format_lr dropout_percent
  by (simp add: str_int_values)

lemma configs_distinct: "distinct EXPERIMENT_CONFIGS"
  unfolding EXPERIMENT_CONFIGS_def mk_config_def float_literals
  by simp

lemma first_job_name: "generate_job_name first_config = Inr ''lora-r16-a32-lr1e-04-d10''"
  unfolding first_config_def mk_config_def generate_job_name_def
    config.select_convs format_lr dropout_percent
  by (simp add: str_int_values)

text \<open>
  Claim C9. The job name is computed from the four hyperparameters of the
  configuration and from nothing else, and the 21 configured parameter tuples, which
  are pairwise different, all get a name, and these 21 names are pairwise different,
  with the learning rate printed by \<^verbatim>\<open>.0e\<close> and the dropout as the truncated float
  product \<^verbatim>\<open>int(dropout*100)\<close>.
\<close>

theorem job_names_collision_free:
  "generate_job_name c =
     generate_job_name
       \<lparr>cfg_r = cfg_r c, cfg_alpha = cfg_alpha c, cfg_lr = cfg_lr c,
        cfg_dropout = cfg_dropout c\<rparr> \<and>
   length EXPERIMENT_CONFIGS = 21 \<and>
   distinct EXPERIMENT_CONFIGS \<and>
   distinct (map generate_job_name EXPERIMENT_CONFIGS) \<and>
   (\<exists>names. map generate_job_name EXPERIMENT_CONFIGS = map Inr names)"
proof -
  have same: "\<lparr>cfg_r = cfg_r c, cfg_alpha = cfg_alpha c, cfg_lr = cfg_lr c,
        cfg_dropout = cfg_dropout c\<rparr> = c"
    by simp
  have "length EXPERIMENT_CONFIGS = 21"
    by (simp add: EXPERIMENT_CONFIGS_def)
  moreover have "distinct (map generate_job_name EXPERIMENT_CONFIGS)"
    unfolding job_names by (simp add: distinct_map inj_on_def)
  moreover have "\<exists>names. map generate_job_name EXPERIMENT_CONFIGS = map Inr names"
    using job_names by blast
  ultimately show ?thesis
    using configs_distinct by (simp only: same simp_thms)
qed

subsection \<open>Region selection\<close>

lemma update_fresh: "k \<notin> fst ` set al \<Longrightarrow> AList.update k v al = al @ [(k, v)]"
  by (induction al) auto

lemma loop_keys:
  "distinct (map fst rs) \<Longrightarrow> fst ` set rs \<inter> fst ` set acc = {} \<Longrightarrow>
   get_all_intensities_loop a rs acc = Inr s \<Longrightarrow> map fst s = map fst acc @ map fst rs"
proof (induction rs arbitrary: acc)
  case Nil
  then show ?case by simp
next
  case (Cons p rs)
  obtain region c where p: "p = (region, c)" by (cases p)
  from Cons.prems(3) p obtain i where
    i: "get_carbon_intensity a (zone c) = Inr i"
    and rest: "get_all_intensities_loop a rs (AList.update region i acc) = Inr s"
    by (auto split: sum.splits)
  from Cons.prems(2) p have fresh: "region \<notin> fst ` set acc" by auto
  then have upd: "AList.update region i acc = acc @ [(region, i)]"
    by (rule update_fresh)
  have "fst ` set rs \<inter> fst ` set (acc @ [(region, i)]) = {}"
    using Cons.prems(1,2) p by auto
  with Cons.IH [of "acc @ [(region, i)]"] Cons.prems(1) rest upd
  have "map fst s = map fst (acc @ [(region, i)]) @ map fst rs" by simp
  then show ?case using p by simp
qed

lemma filter_split:
  "filter P t = pre @ x # post \<Longrightarrow>
   \<exists>pre' post'. t = pre' @ x # post' \<and> filter P pre' = pre \<and> filter P post' = post"
proof (induction t arbitrary: pre)
  case Nil
  then show ?case by simp
next
  case (Cons y t)
  show ?case
  proof (cases "P y")
    case False
    with Cons.prems have "filter P t = pre @ x # post" by simp
    from Cons.IH [OF this] obtain pre' post' where
      "t = pre' @ x # post'" "filter P pre' = pre" "filter P post' = post" by blast
    with False have "y # t = (y # pre') @ x # post' \<and> filter P (y # pre') = pre \<and>
      filter P post' = post" by simp
    then show ?thesis by blast
  next
    case True
    show ?thesis
    proof (cases pre)
      case Nil
      with True Cons.prems have "y # filter P t = x # post" by simp
      then have "y = x" "filter P t = post" by (metis list.inject)+
      then have "y # t = [] @ x # t \<and> filter P [] = pre \<and> filter P t = post"
        using Nil by simp
      then show ?thesis by blast
    next
      case (Cons q qs)
      with True Cons.prems have "y # filter P t = q # (qs @ x # post)" by simp
      then have q: "q = y" and rest: "filter P t = qs @ x # post" by (metis list.inject)+
      from Cons.IH [OF rest] obtain pre' post' where
        "t = pre' @ x # post'" "filter P pre' = qs" "filter P post' = post" by blast
      with True q Cons have "y # t = (y # pre') @ x # post' \<and> filter P (y # pre') = pre \<and>
        filter P post' = post" by simp
      then show ?thesis by blast
    qed
  qed
qed

text \<open>On numbers other than NaN, \<^verbatim>\<open><\<close> returns, is transitive and total.\<close>

lemma float_lt_trans: "float_lt a b \<Longrightarrow> float_lt b c \<Longrightarrow> float_lt a c"
  by (cases a; cases b; cases c) auto

lemma float_lt_total:
  "float_lt m b \<Longrightarrow> \<not> float_lt x b \<Longrightarrow> x \<noteq> NaN \<Longrightarrow> float_lt m x"
  by (cases m; cases b; cases x) auto

lemma py_lt_num:
  "num_val a = Some x \<Longrightarrow> num_val b = Some y \<Longrightarrow> py_lt a b = Inr (float_lt x y)"
  by (cases a) auto

lemma ordered_numberE:
  assumes "ordered_number v"
  obtains x where "num_val v = Some x" "x \<noteq> NaN"
  using assms by (auto simp: ordered_number_def split: option.splits)

lemma py_lt_trans:
  assumes "ordered_number a" "ordered_number b" "ordered_number c"
    and "py_lt a b = Inr True" "py_lt b c = Inr True"
  shows "py_lt a c = Inr True"
proof -
  from assms(1) obtain x where x: "num_val a = Some x" by (rule ordered_numberE)
  from assms(2) obtain y where y: "num_val b = Some y" by (rule ordered_numberE)
  from assms(3) obtain z where z: "num_val c = Some z" by (rule ordered_numberE)
  from assms(4,5) have "float_lt x y" "float_lt y z"
    by (simp_all add: py_lt_num [OF x y] py_lt_num [OF y z])
  then have "float_lt x z" by (rule float_lt_trans)
  then show ?thesis by (simp add: py_lt_num [OF x z])
qed

lemma py_lt_total:
  assumes "ordered_number m" "ordered_number b" "ordered_number x"
    and "py_lt m b = Inr True" "py_lt x b = Inr False"
  shows "py_lt m x = Inr True"
proof -
  from assms(1) obtain u where u: "num_val m = Some u" by (rule ordered_numberE)
  from assms(2) obtain v where v: "num_val b = Some v" by (rule ordered_numberE)
  from assms(3) obtain w where w: "num_val x = Some w" "w \<noteq> NaN" by (rule ordered_numberE)
  from assms(4,5) have "float_lt u v" "\<not> float_lt w v"
    by (simp_all add: py_lt_num [OF u v] py_lt_num [OF w(1) v])
  then have "float_lt u w" using w(2) by (rule float_lt_total)
  then show ?thesis by (simp add: py_lt_num [OF u w(1)])
qed

lemma py_lt_returns:
  assumes "ordered_number a" "ordered_number b"
  shows "py_lt a b = Inr True \<or> py_lt a b = Inr False"
proof -
  from assms(1) obtain x where x: "num_val a = Some x" by (rule ordered_numberE)
  from assms(2) obtain y where y: "num_val b = Some y" by (rule ordered_numberE)
  show ?thesis by (simp add: py_lt_num [OF x y])
qed

lemma min_loop_split:
  "\<forall>p \<in> set (best # xs). ordered_number (snd p) \<Longrightarrow>
   \<exists>m pre post. min_loop best xs = Inr m \<and> best # xs = pre @ m # post \<and>
     (\<forall>p \<in> set pre. py_lt (snd m) (snd p) = Inr True) \<and>
     (\<forall>p \<in> set post. py_lt (snd p) (snd m) = Inr False)"
proof (induction xs arbitrary: best)
  case Nil
  have "min_loop best [] = Inr best \<and> [best] = [] @ best # [] \<and>
     (\<forall>p \<in> set []. py_lt (snd best) (snd p) = Inr True) \<and>
     (\<forall>p \<in> set []. py_lt (snd p) (snd best) = Inr False)" by simp
  then show ?case by blast
next
  case (Cons x xs)
  have ob: "ordered_number (snd best)" and ox: "ordered_number (snd x)"
    and oxs: "\<forall>p \<in> set xs. ordered_number (snd p)"
    using Cons.prems by simp_all
  from py_lt_returns [OF ox ob] show ?case
  proof
    assume smaller: "py_lt (snd x) (snd best) = Inr True"
    have "\<forall>p \<in> set (x # xs). ordered_number (snd p)" using ox oxs by simp
    from Cons.IH [OF this] obtain m pre post where
      ml: "min_loop x xs = Inr m" and
      sp: "x # xs = pre @ m # post" and
      lt: "\<forall>p \<in> set pre. py_lt (snd m) (snd p) = Inr True" and
      le: "\<forall>p \<in> set post. py_lt (snd p) (snd m) = Inr False"
      by blast
    have eq: "min_loop best (x # xs) = Inr m" using smaller ml by simp
    have "m \<in> set (x # xs)" unfolding sp by simp
    then have om: "ordered_number (snd m)" using ox oxs by auto
    have mb: "py_lt (snd m) (snd best) = Inr True"
    proof (cases pre)
      case Nil
      with sp have "x # xs = m # post" by (metis append_Nil)
      then have "m = x" by (metis list.inject)
      with smaller show ?thesis by simp
    next
      case (Cons q qs)
      with sp have "x # xs = q # (qs @ m # post)" by (metis append_Cons)
      then have "q = x" by (metis list.inject)
      with lt Cons have "py_lt (snd m) (snd x) = Inr True" by simp
      from py_lt_trans [OF om ox ob this smaller] show ?thesis .
    qed
    have "best # x # xs = (best # pre) @ m # post" using sp by simp
    moreover have "\<forall>p \<in> set (best # pre). py_lt (snd m) (snd p) = Inr True"
      using lt mb by simp
    ultimately show ?thesis using eq le by blast
  next
    assume keep: "py_lt (snd x) (snd best) = Inr False"
    have "\<forall>p \<in> set (best # xs). ordered_number (snd p)" using ob oxs by simp
    from Cons.IH [OF this] obtain m pre post where
      ml: "min_loop best xs = Inr m" and
      sp: "best # xs = pre @ m # post" and
      lt: "\<forall>p \<in> set pre. py_lt (snd m) (snd p) = Inr True" and
      le: "\<forall>p \<in> set post. py_lt (snd p) (snd m) = Inr False"
      by blast
    have eq: "min_loop best (x # xs) = Inr m" using keep ml by simp
    have "m \<in> set (best # xs)" unfolding sp by simp
    then have om: "ordered_number (snd m)" using ob oxs by auto
    show ?thesis
    proof (cases pre)
      case Nil
      with sp have "best # xs = m # post" by (metis append_Nil)
      then have mb: "m = best" and px: "post = xs" by (metis list.inject)+
      have "best # x # xs = [] @ m # (x # xs)" using mb by simp
      moreover have "\<forall>p \<in> set (x # xs). py_lt (snd p) (snd m) = Inr False"
        using le px mb keep by auto
      moreover have "\<forall>p \<in> set []. py_lt (snd m) (snd p) = Inr True" by simp
      ultimately show ?thesis using eq by blast
    next
      case (Cons q qs)
      with sp have "best # xs = q # (qs @ m # post)" by (metis append_Cons)
      then have q: "q = best" and xs: "xs = qs @ m # post" by (metis list.inject)+
      from lt Cons q have "py_lt (snd m) (snd best) = Inr True" by simp
      from py_lt_total [OF om ob ox this keep]
      have mx: "py_lt (snd m) (snd x) = Inr True" .
      have "best # x # xs = (best # x # qs) @ m # post" using xs by simp
      moreover have "\<forall>p \<in> set (best # x # qs). py_lt (snd m) (snd p) = Inr True"
        using lt Cons q mx by simp
      ultimately show ?thesis using eq le by blast
    qed
  qed
qed

lemma scenario_snapshots:
  "get_all_intensities REGIONS scenario_A = Inr snapshot_A"
  "get_all_intensities REGIONS scenario_tie =
     Inr [(''quebec'', PInt 25), (''ohio'', PInt 350), (''nordic'', PFloat (Finite 25))]"
  "get_all_intensities REGIONS scenario_nan =
     Inr [(''quebec'', PFloat NaN), (''ohio'', PInt 350), (''nordic'', PInt 25)]"
  "get_all_intensities REGIONS scenario_outage =
     Inr [(''quebec'', PNone), (''ohio'', PNone), (''nordic'', PNone)]"
  by (simp_all add: get_all_intensities_def REGIONS_def get_carbon_intensity_def
      scenario_A_def scenario_tie_def scenario_nan_def scenario_outage_def reading_def
      dict_get_def snapshot_A_def)

lemma regions_distinct: "distinct (map fst REGIONS)"
  by (simp add: REGIONS_def)

lemma scenario_picks:
  "pick_cleanest_region REGIONS scenario_A = Inr (''nordic'', snapshot_A)"
  "pick_cleanest_region REGIONS scenario_tie =
     Inr (''quebec'',
       [(''quebec'', PInt 25), (''ohio'', PInt 350), (''nordic'', PFloat (Finite 25))])"
  "pick_cleanest_region REGIONS scenario_outage =
     Inl (RuntimeError ''Could not get carbon intensity for any region!'')"
  by (simp_all add: pick_cleanest_region_def scenario_snapshots valid_readings_def
      snapshot_A_def)

text \<open>
  Claim C1, as the code has it. Let \<open>s\<close> be the snapshot that \<open>get_all_intensities\<close>
  returns for a region table with pairwise different names. It has one entry per
  region, in the order of declaration. If some reading succeeded and every successful
  reading is a number other than NaN, \<open>pick_cleanest_region\<close> returns a region \<open>r\<close>
  together with the whole snapshot \<open>s\<close>, failures included, and \<open>r\<close> is the first
  region of minimal reading: it is smaller than every successful reading declared
  before it, and no successful reading declared after it is smaller. If every reading
  failed, the result is the \<^verbatim>\<open>RuntimeError\<close>.
\<close>

theorem pick_cleanest_region_selects:
  assumes "distinct (map fst rs)" and "get_all_intensities rs a = Inr s"
  shows "map fst s = map fst rs \<and>
    ((\<exists>p \<in> set s. snd p \<noteq> PNone) \<and>
     (\<forall>p \<in> set s. snd p \<noteq> PNone \<longrightarrow> ordered_number (snd p)) \<longrightarrow>
       (\<exists>pre r v post. pick_cleanest_region rs a = Inr (r, s) \<and>
          s = pre @ (r, v) # post \<and> v \<noteq> PNone \<and>
          (\<forall>p \<in> set pre. snd p \<noteq> PNone \<longrightarrow> py_lt v (snd p) = Inr True) \<and>
          (\<forall>p \<in> set post. snd p \<noteq> PNone \<longrightarrow> py_lt (snd p) v = Inr False))) \<and>
    ((\<forall>p \<in> set s. snd p = PNone) \<longrightarrow>
       pick_cleanest_region rs a =
         Inl (RuntimeError ''Could not get carbon intensity for any region!''))"
proof (intro conjI impI)
  show "map fst s = map fst rs"
    using loop_keys [of rs "[]" a s] assms by (simp add: get_all_intensities_def)
next
  assume h: "(\<exists>p \<in> set s. snd p \<noteq> PNone) \<and>
     (\<forall>p \<in> set s. snd p \<noteq> PNone \<longrightarrow> ordered_number (snd p))"
  then obtain x xs where valid: "valid_readings s = x # xs"
    by (cases "valid_readings s") (auto simp: valid_readings_def filter_empty_conv)
  have "\<forall>p \<in> set (valid_readings s). ordered_number (snd p)"
    using h by (simp add: valid_readings_def)
  then have "\<forall>p \<in> set (x # xs). ordered_number (snd p)" using valid by simp
  from min_loop_split [OF this] obtain m pre post where
    ml: "min_loop x xs = Inr m" and
    sp: "x # xs = pre @ m # post" and
    lt: "\<forall>p \<in> set pre. py_lt (snd m) (snd p) = Inr True" and
    le: "\<forall>p \<in> set post. py_lt (snd p) (snd m) = Inr False"
    by blast
  obtain r v where m: "m = (r, v)" by (cases m)
  from valid sp have "filter (\<lambda>p. snd p \<noteq> PNone) s = pre @ m # post"
    by (simp add: valid_readings_def)
  from filter_split [OF this] obtain pre' post' where
    s: "s = pre' @ m # post'" and
    pre: "filter (\<lambda>p. snd p \<noteq> PNone) pre' = pre" and
    post: "filter (\<lambda>p. snd p \<noteq> PNone) post' = post"
    by blast
  have "m \<in> set (valid_readings s)" using valid sp by simp
  then have v: "v \<noteq> PNone" using m by (simp add: valid_readings_def)
  have pick: "pick_cleanest_region rs a = Inr (r, s)"
    using assms(2) valid ml m by (simp add: pick_cleanest_region_def)
  have before: "\<forall>p \<in> set pre'. snd p \<noteq> PNone \<longrightarrow> py_lt v (snd p) = Inr True"
    using lt pre m by auto
  have after: "\<forall>p \<in> set post'. snd p \<noteq> PNone \<longrightarrow> py_lt (snd p) v = Inr False"
    using le post m by auto
  from pick s m v before after
  show "\<exists>pre r v post. pick_cleanest_region rs a = Inr (r, s) \<and>
          s = pre @ (r, v) # post \<and> v \<noteq> PNone \<and>
          (\<forall>p \<in> set pre. snd p \<noteq> PNone \<longrightarrow> py_lt v (snd p) = Inr True) \<and>
          (\<forall>p \<in> set post. snd p \<noteq> PNone \<longrightarrow> py_lt (snd p) v = Inr False)"
    by blast
next
  assume "\<forall>p \<in> set s. snd p = PNone"
  then have "valid_readings s = []" by (simp add: valid_readings_def filter_empty_conv)
  then show "pick_cleanest_region rs a =
         Inl (RuntimeError ''Could not get carbon intensity for any region!'')"
    using assms(2) by (simp add: pick_cleanest_region_def)
qed

text \<open>
  The theorem at the tie (Quebec at the integer 25 and Nordic at the float 25.0,
  Quebec declared first) and at the outage.
\<close>

theorem pick_cleanest_region_selects_witness:
  "get_all_intensities REGIONS scenario_tie =
     Inr [(''quebec'', PInt 25), (''ohio'', PInt 350), (''nordic'', PFloat (Finite 25))] \<and>
   pick_cleanest_region REGIONS scenario_tie =
     Inr (''quebec'',
       [(''quebec'', PInt 25), (''ohio'', PInt 350), (''nordic'', PFloat (Finite 25))]) \<and>
   (\<exists>pre v post.
      [(''quebec'', PInt 25), (''ohio'', PInt 350), (''nordic'', PFloat (Finite 25))] =
        pre @ (''quebec'', v) # post \<and>
      (\<forall>p \<in> set pre. snd p \<noteq> PNone \<longrightarrow> py_lt v (snd p) = Inr True) \<and>
      (\<forall>p \<in> set post. snd p \<noteq> PNone \<longrightarrow> py_lt (snd p) v = Inr False)) \<and>
   get_all_intensities REGIONS scenario_outage =
     Inr [(''quebec'', PNone), (''ohio'', PNone), (''nordic'', PNone)] \<and>
   pick_cleanest_region REGIONS scenario_outage =
     Inl (RuntimeError ''Could not get carbon intensity for any region!'')"
proof -
  let ?t = "[(''quebec'', PInt 25), (''ohio'', PInt 350), (''nordic'', PFloat (Finite 25))]"
  let ?o = "[(''quebec'', PNone), (''ohio'', PNone), (''nordic'', PNone)]"
  have some: "(\<exists>p \<in> set ?t. snd p \<noteq> PNone) \<and>
     (\<forall>p \<in> set ?t. snd p \<noteq> PNone \<longrightarrow> ordered_number (snd p))"
    by (simp add: ordered_number_def)
  have none: "\<forall>p \<in> set ?o. snd p = PNone" by simp
  from pick_cleanest_region_selects [OF regions_distinct scenario_snapshots(2)] some
  obtain pre r v post where
    pk: "pick_cleanest_region REGIONS scenario_tie = Inr (r, ?t)" and
    sp: "?t = pre @ (r, v) # post" and
    lt: "\<forall>p \<in> set pre. snd p \<noteq> PNone \<longrightarrow> py_lt v (snd p) = Inr True" and
    le: "\<forall>p \<in> set post. snd p \<noteq> PNone \<longrightarrow> py_lt (snd p) v = Inr False"
    by blast
  from pk have r: "r = ''quebec''" by (simp add: scenario_picks)
  from sp lt le have ex: "\<exists>pre v post. ?t = pre @ (''quebec'', v) # post \<and>
      (\<forall>p \<in> set pre. snd p \<noteq> PNone \<longrightarrow> py_lt v (snd p) = Inr True) \<and>
      (\<forall>p \<in> set post. snd p \<noteq> PNone \<longrightarrow> py_lt (snd p) v = Inr False)"
    unfolding r by (intro exI conjI)
  from pick_cleanest_region_selects [OF regions_distinct scenario_snapshots(4)] none
  have out: "pick_cleanest_region REGIONS scenario_outage =
     Inl (RuntimeError ''Could not get carbon intensity for any region!'')" by blast
  show ?thesis
    by (rule conjI [OF scenario_snapshots(2) conjI [OF pk [unfolded r]
          conjI [OF ex conjI [OF scenario_snapshots(4) out]]]])
qed

text \<open>
  With NaN as the first successful reading no later reading replaces it, since every
  comparison with NaN is false: Quebec is selected although Nordic reads 25, which is
  below Ohio's 350, and NaN is not less than or equal to 25.
\<close>

theorem pick_cleanest_region_nan_counterexample:
  "pick_cleanest_region REGIONS scenario_nan =
     Inr (''quebec'', [(''quebec'', PFloat NaN), (''ohio'', PInt 350), (''nordic'', PInt 25)]) \<and>
   \<not> float_le NaN (Finite 25) \<and>
   float_le (Finite 25) (Finite 350) \<and>
   py_lt (PInt 25) (PFloat NaN) = Inr False"
  by (simp add: pick_cleanest_region_def scenario_snapshots valid_readings_def float_le_def)

subsection \<open>Telemetry failures\<close>

text \<open>
  A failed request, an error status and a body that is not JSON all raise a
  \<^verbatim>\<open>RequestException\<close>, which \<open>get_carbon_intensity\<close> turns into \<^verbatim>\<open>None\<close>.
\<close>

lemma get_carbon_intensity_caught:
  "a z = RequestFailed m \<or> a z = HttpErrorStatus code \<or> a z = BodyNotJson \<Longrightarrow>
   get_carbon_intensity a z = Inr PNone"
  by (auto simp: get_carbon_intensity_def)

text \<open>
  Claim C3 (the code departs from it). An answer with status 200 whose body is the
  empty JSON object has no key \<^verbatim>\<open>carbonIntensity\<close>: the subscript raises
  \<^verbatim>\<open>KeyError\<close>, which is no \<^verbatim>\<open>RequestException\<close>, so the fetch raises instead of
  returning \<^verbatim>\<open>None\<close>. The exception passes through \<open>pick_cleanest_region\<close> and ends
  \<open>run_experiment\<close> in its first tick, before anything is logged.
\<close>

theorem get_carbon_intensity_missing_key:
  "get_carbon_intensity scenario_empty_body ''CA-QC'' = Inl (KeyError ''carbonIntensity'') \<and>
   pick_cleanest_region REGIONS scenario_empty_body = Inl (KeyError ''carbonIntensity'') \<and>
   run_experiment REGIONS EXPERIMENT_CONFIGS False
       (\<lambda>i. mk_tick scenario_empty_body (exits 0 [])) ''y'' =
     ([], Crashed (KeyError ''carbonIntensity''))"
proof -
  have g: "get_carbon_intensity scenario_empty_body z = Inl (KeyError ''carbonIntensity'')" for z
    by (simp add: get_carbon_intensity_def scenario_empty_body_def dict_get_def)
  have p: "pick_cleanest_region REGIONS scenario_empty_body = Inl (KeyError ''carbonIntensity'')"
    by (simp add: pick_cleanest_region_def get_all_intensities_def REGIONS_def g)
  have t: "run_tick REGIONS False (mk_tick scenario_empty_body (exits 0 [])) n i cfg =
      ([], Some (KeyError ''carbonIntensity''))" for n i cfg
    by (simp add: run_tick_def mk_tick_def p)
  have c: "EXPERIMENT_CONFIGS = hd EXPERIMENT_CONFIGS # tl EXPERIMENT_CONFIGS"
    by (simp add: EXPERIMENT_CONFIGS_def)
  have "run_loop REGIONS False (\<lambda>i. mk_tick scenario_empty_body (exits 0 [])) n
      (enumerate 0 (hd EXPERIMENT_CONFIGS # tl EXPERIMENT_CONFIGS)) =
      ([], Crashed (KeyError ''carbonIntensity''))" for n
    by (simp add: t)
  with c have "run_loop REGIONS False (\<lambda>i. mk_tick scenario_empty_body (exits 0 []))
      (length EXPERIMENT_CONFIGS) (enumerate 0 EXPERIMENT_CONFIGS) =
      ([], Crashed (KeyError ''carbonIntensity''))"
    by metis
  then have "run_experiment REGIONS EXPERIMENT_CONFIGS False
       (\<lambda>i. mk_tick scenario_empty_body (exits 0 [])) ''y'' =
     ([], Crashed (KeyError ''carbonIntensity''))"
    by (simp add: run_experiment_def answers_yes_def)
  with g p show ?thesis by simp
qed

subsection \<open>The loop of the campaign\<close>

lemma run_loop_append:
  "run_loop rs am ticks n (xs @ ys) =
     (if snd (run_loop rs am ticks n xs) = Completed
      then (fst (run_loop rs am ticks n xs) @ fst (run_loop rs am ticks n ys),
            snd (run_loop rs am ticks n ys))
      else run_loop rs am ticks n xs)"
proof (induction xs)
  case Nil
  show ?case by simp
next
  case (Cons x xs)
  obtain i cfg where x: "x = (i, cfg)" by (cases x)
  obtain evs ex where t: "run_tick rs am (ticks i) n i cfg = (evs, ex)"
    by (cases "run_tick rs am (ticks i) n i cfg")
  show ?case
  proof (cases ex)
    case None
    with x t Cons.IH show ?thesis by simp
  next
    case (Some e)
    with x t show ?thesis by simp
  qed
qed

lemma enumerate_at:
  "i < length configs \<Longrightarrow>
   enumerate 0 configs =
     take i (enumerate 0 configs) @ (i, configs ! i) # drop (Suc i) (enumerate 0 configs)"
proof -
  assume i: "i < length configs"
  then have "drop i (enumerate 0 configs) =
      enumerate 0 configs ! i # drop (Suc i) (enumerate 0 configs)"
    by (simp add: Cons_nth_drop_Suc)
  then have "drop i (enumerate 0 configs) =
      (i, configs ! i) # drop (Suc i) (enumerate 0 configs)"
    using i by (simp add: nth_enumerate_eq)
  then show ?thesis by (metis append_take_drop_id)
qed

text \<open>
  A campaign that gets past the prompt and whose first \<open>i\<close> ticks go through does the
  events of these ticks, then tick \<open>i\<close>, then, unless tick \<open>i\<close> raised, the rest of
  the loop.
\<close>

lemma run_experiment_at:
  assumes "i < length configs"
    and "(\<forall>p \<in> set rs. \<not> contains ''100.x.x.x'' (ip (snd p))) \<or> answers_yes response"
    and "snd (run_loop rs am ticks (length configs) (take i (enumerate 0 configs))) = Completed"
  shows "run_experiment rs configs am ticks response =
     (case run_tick rs am (ticks i) (length configs) i (configs ! i) of
        (evs, Some e) \<Rightarrow>
          (fst (run_loop rs am ticks (length configs) (take i (enumerate 0 configs))) @ evs,
           Crashed e)
      | (evs, None) \<Rightarrow>
          (fst (run_loop rs am ticks (length configs) (take i (enumerate 0 configs))) @ evs
             @ fst (run_loop rs am ticks (length configs) (drop (Suc i) (enumerate 0 configs))),
           snd (run_loop rs am ticks (length configs) (drop (Suc i) (enumerate 0 configs)))))"
proof -
  have iff: "(map fst (filter (\<lambda>(r, c). contains ''100.x.x.x'' (ip c)) rs) \<noteq> []) =
      (\<exists>p \<in> set rs. contains ''100.x.x.x'' (ip (snd p)))"
    by (force simp: filter_empty_conv)
  have "run_experiment rs configs am ticks response =
      run_loop rs am ticks (length configs) (enumerate 0 configs)"
    using assms(2) iff by (auto simp: run_experiment_def Let_def)
  also have "\<dots> = run_loop rs am ticks (length configs)
      (take i (enumerate 0 configs) @ (i, configs ! i) # drop (Suc i) (enumerate 0 configs))"
    using enumerate_at [OF assms(1)] by simp
  finally show ?thesis
    unfolding run_loop_append using assms(3)
    by (simp split: prod.splits option.splits)
qed

subsection \<open>A tick without telemetry\<close>

lemma update_set: "p \<in> set (AList.update k v al) \<Longrightarrow> p = (k, v) \<or> p \<in> set al"
  by (induction al) (auto split: if_splits)

lemma all_fail_loop:
  "\<forall>p \<in> set rs. get_carbon_intensity a (zone (snd p)) = Inr PNone \<Longrightarrow>
   \<forall>p \<in> set acc. snd p = PNone \<Longrightarrow>
   \<exists>s. get_all_intensities_loop a rs acc = Inr s \<and> (\<forall>p \<in> set s. snd p = PNone)"
proof (induction rs arbitrary: acc)
  case Nil
  then show ?case by simp
next
  case (Cons q rs)
  obtain region c where q: "q = (region, c)" by (cases q)
  from Cons.prems(1) q have here: "get_carbon_intensity a (zone c) = Inr PNone" by simp
  have "\<forall>p \<in> set (AList.update region PNone acc). snd p = PNone"
    using Cons.prems(2) update_set [of _ region PNone acc] by fastforce
  with Cons.IH [of "AList.update region PNone acc"] Cons.prems(1)
  obtain s where "get_all_intensities_loop a rs (AList.update region PNone acc) = Inr s"
    "\<forall>p \<in> set s. snd p = PNone" by auto
  with here q show ?case by simp
qed

lemma all_fail_pick:
  assumes "\<forall>p \<in> set rs. get_carbon_intensity a (zone (snd p)) = Inr PNone"
  shows "pick_cleanest_region rs a =
     Inl (RuntimeError ''Could not get carbon intensity for any region!'')"
proof -
  from all_fail_loop [OF assms, of "[]"] obtain s where
    s: "get_all_intensities rs a = Inr s" and none: "\<forall>p \<in> set s. snd p = PNone"
    by (auto simp: get_all_intensities_def)
  from none have "valid_readings s = []"
    by (simp add: valid_readings_def filter_empty_conv)
  with s show ?thesis by (simp add: pick_cleanest_region_def)
qed

lemma run_tick_skip:
  "pick_cleanest_region rs (api_now te) = Inl (RuntimeError m) \<Longrightarrow>
   run_tick rs am te n i cfg = (LogAppend (skipped_entry te i cfg) # wait_after n i, None)"
  by (simp add: run_tick_def)

text \<open>
  Claim C2, as the code has it. In a tick in which the fetch fails (returns \<^verbatim>\<open>None\<close>)
  for every configured region, the runner appends one entry whose status is the string
  \<^verbatim>\<open>skipped_api_error\<close>, with the timestamp, the index and the configuration of the
  current job and with no other key, then waits as after any tick. In a campaign that
  got past the prompt and whose earlier ticks went through, this entry is in the log.
\<close>

theorem skipped_tick_record:
  assumes "\<forall>p \<in> set rs. get_carbon_intensity (api_now te) (zone (snd p)) = Inr PNone"
  shows "run_tick rs am te n i cfg =
      (LogAppend (skipped_entry te i cfg) # wait_after n i, None) \<and>
    status (skipped_entry te i cfg) = ''skipped_api_error'' \<and>
    timestamp (skipped_entry te i cfg) = iso_now te \<and>
    job_index (skipped_entry te i cfg) = i \<and>
    config (skipped_entry te i cfg) = cfg \<and>
    selected_region (skipped_entry te i cfg) = None \<and>
    intensities (skipped_entry te i cfg) = None \<and>
    job_id (skipped_entry te i cfg) = None \<and>
    job_name (skipped_entry te i cfg) = None \<and>
    region_zone (skipped_entry te i cfg) = None \<and>
    elapsed_seconds (skipped_entry te i cfg) = None \<and>
    elapsed_hours (skipped_entry te i cfg) = None \<and>
    error (skipped_entry te i cfg) = None \<and>
    (\<forall>configs ticks response.
       i < length configs \<and> ticks i = te \<and> configs ! i = cfg \<and> n = length configs \<and>
       ((\<forall>p \<in> set rs. \<not> contains ''100.x.x.x'' (ip (snd p))) \<or> answers_yes response) \<and>
       snd (run_loop rs am ticks (length configs) (take i (enumerate 0 configs))) = Completed
       \<longrightarrow>
       (\<exists>before after ending.
          run_experiment rs configs am ticks response =
            (before @ LogAppend (skipped_entry te i cfg) # after, ending)))"
proof -
  have tick: "run_tick rs am te n i cfg =
      (LogAppend (skipped_entry te i cfg) # wait_after n i, None)"
    by (rule run_tick_skip [OF all_fail_pick [OF assms]])
  have campaign: "\<exists>before after ending.
          run_experiment rs configs am ticks response =
            (before @ LogAppend (skipped_entry te i cfg) # after, ending)"
    if h: "i < length configs \<and> ticks i = te \<and> configs ! i = cfg \<and> n = length configs \<and>
       ((\<forall>p \<in> set rs. \<not> contains ''100.x.x.x'' (ip (snd p))) \<or> answers_yes response) \<and>
       snd (run_loop rs am ticks (length configs) (take i (enumerate 0 configs))) = Completed"
    for configs ticks response
  proof -
    from h have i: "i < length configs" and
      st: "(\<forall>p \<in> set rs. \<not> contains ''100.x.x.x'' (ip (snd p))) \<or> answers_yes response" and
      re: "snd (run_loop rs am ticks (length configs) (take i (enumerate 0 configs))) = Completed"
      by simp_all
    from h tick have "run_tick rs am (ticks i) (length configs) i (configs ! i) =
      (LogAppend (skipped_entry te i cfg) # wait_after n i, None)" by simp
    with run_experiment_at [OF i st re]
    have "run_experiment rs configs am ticks response =
      (fst (run_loop rs am ticks (length configs) (take i (enumerate 0 configs)))
         @ LogAppend (skipped_entry te i cfg)
         # (wait_after n i
            @ fst (run_loop rs am ticks (length configs) (drop (Suc i) (enumerate 0 configs)))),
       snd (run_loop rs am ticks (length configs) (drop (Suc i) (enumerate 0 configs))))"
      by simp
    then show ?thesis by blast
  qed
  from tick campaign show ?thesis
    by (simp add: skipped_entry_def)
qed

text \<open>The theorem at the outage, for the first job of 21.\<close>

theorem skipped_tick_record_witness:
  "run_tick REGIONS False (mk_tick scenario_outage (exits 0 [])) 21 0 first_config =
     (LogAppend (skipped_entry (mk_tick scenario_outage (exits 0 [])) 0 first_config)
        # wait_after 21 0, None) \<and>
   status (skipped_entry (mk_tick scenario_outage (exits 0 [])) 0 first_config) =
     ''skipped_api_error'' \<and>
   timestamp (skipped_entry (mk_tick scenario_outage (exits 0 [])) 0 first_config) =
     ''2025-01-01T12:00:00''"
proof -
  have "\<forall>p \<in> set REGIONS.
      get_carbon_intensity (api_now (mk_tick scenario_outage (exits 0 [])))
        (zone (snd p)) = Inr PNone"
    by (simp add: REGIONS_def mk_tick_def scenario_outage_def get_carbon_intensity_def)
  from skipped_tick_record [OF this, of False 21 0 first_config]
  show ?thesis by (simp add: mk_tick_def)
qed

text \<open>The status of that entry is not the string \<^verbatim>\<open>skipped_no_telemetry\<close> of the claim.\<close>

theorem skipped_tick_status_counterexample:
  "\<exists>e rest.
     run_tick REGIONS False (mk_tick scenario_outage (exits 0 [])) 21 0 first_config =
       (LogAppend e # rest, None) \<and>
     status e = ''skipped_api_error'' \<and> status e \<noteq> ''skipped_no_telemetry''"
proof -
  have "pick_cleanest_region REGIONS (api_now (mk_tick scenario_outage (exits 0 []))) =
      Inl (RuntimeError ''Could not get carbon intensity for any region!'')"
    by (simp add: mk_tick_def scenario_picks)
  from run_tick_skip [OF this, of False 21 0 first_config]
  show ?thesis by (simp add: skipped_entry_def)
qed

subsection \<open>Blocking and non-blocking submission\<close>

lemma nordic_config:
  "map_of REGIONS ''nordic'' =
     Some \<lparr>zone = ''NO'', ip = ''100.80.123.80'',
           description = ''Nordic - Hydro-dominated grid''\<rparr>"
  by (simp add: REGIONS_def)

lemma infinite_dropout_name: "generate_job_name infinite_dropout_config = Inl OverflowError"
  by (simp add: generate_job_name_def infinite_dropout_config_def)

lemma job_name_raises:
  assumes "generate_job_name cfg = Inl ex"
  shows "ex = OverflowError \<and>
       (float_mul (cfg_dropout cfg) (Finite 100) = PosInf \<or>
        float_mul (cfg_dropout cfg) (Finite 100) = NegInf) \<or>
     ex = ValueError \<and> float_mul (cfg_dropout cfg) (Finite 100) = NaN"
  using assms
  by (cases "float_mul (cfg_dropout cfg) (Finite 100)")
    (auto simp: generate_job_name_def)

lemma job_name_returns:
  "(\<exists>name. generate_job_name cfg = Inr name) =
     (\<exists>q. float_mul (cfg_dropout cfg) (Finite 100) = Finite q)"
  by (cases "float_mul (cfg_dropout cfg) (Finite 100)")
    (auto simp: generate_job_name_def)

lemma submit_job_ssh_cases:
  assumes "generate_job_name cfg = Inr name" and "map_of rs region = Some rc"
  shows "submit_job_ssh rs te region cfg ints idx =
    Inr (case subprocess_run (4 * 3600) (timeout_text te) (remote te) of
           Exited returncode out err \<Rightarrow>
             (if returncode = 0
              then (submitted_entry te region rc name cfg ints idx ''completed'')
                     \<lparr>elapsed_seconds := Some (elapsed_time te),
                      elapsed_hours := Some (float_div_3600 (elapsed_time te))\<rparr>
              else (submitted_entry te region rc name cfg ints idx ''failed'')
                     \<lparr>elapsed_seconds := Some (elapsed_time te),
                      elapsed_hours := Some (float_div_3600 (elapsed_time te)),
                      error := Some (if err \<noteq> [] then last_chars 1000 err
                                     else ''Unknown error'')\<rparr>)
         | TimeoutExpired m \<Rightarrow> submitted_entry te region rc name cfg ints idx ''timeout''
         | Raised m \<Rightarrow> (submitted_entry te region rc name cfg ints idx ''error'')
                          \<lparr>error := Some m\<rparr>)"
  using assms
  by (simp add: submit_job_ssh_def submitted_entry_def Let_def split: proc_outcome.splits)

lemma submit_job_async_cases:
  assumes "generate_job_name cfg = Inr name" and "map_of rs region = Some rc"
  shows "submit_job_async rs te region cfg ints idx =
    Inr (case subprocess_run 60 (timeout_text te) (remote te) of
           Exited returncode out err \<Rightarrow>
             (if returncode = 0
              then submitted_entry te region rc name cfg ints idx ''submitted_async''
              else (submitted_entry te region rc name cfg ints idx ''submit_failed'')
                     \<lparr>error := Some err\<rparr>)
         | TimeoutExpired m \<Rightarrow> (submitted_entry te region rc name cfg ints idx ''error'')
                          \<lparr>error := Some m\<rparr>
         | Raised m \<Rightarrow> (submitted_entry te region rc name cfg ints idx ''error'')
                          \<lparr>error := Some m\<rparr>)"
  using assms
  by (simp add: submit_job_async_def submitted_entry_def Let_def split: proc_outcome.splits)

lemma submit_raises:
  "generate_job_name cfg = Inl ex \<Longrightarrow> submit_job_ssh rs te region cfg ints idx = Inl ex"
  "generate_job_name cfg = Inl ex \<Longrightarrow> submit_job_async rs te region cfg ints idx = Inl ex"
  "generate_job_name cfg = Inr name \<Longrightarrow> map_of rs region = None \<Longrightarrow>
     submit_job_ssh rs te region cfg ints idx = Inl (KeyError region)"
  "generate_job_name cfg = Inr name \<Longrightarrow> map_of rs region = None \<Longrightarrow>
     submit_job_async rs te region cfg ints idx = Inl (KeyError region)"
  by (simp_all add: submit_job_ssh_def submit_job_async_def)





text \<open>
  Claim C10, as the code has it. \<open>submit_job_async\<close> raises when the job name cannot
  be made, which is when \<^verbatim>\<open>dropout*100\<close> is an infinity (\<^verbatim>\<open>OverflowError\<close>) or NaN
  (\<^verbatim>\<open>ValueError\<close>), or when the region is not in the table (\<^verbatim>\<open>KeyError\<close>).
  Otherwise it returns an entry and raises nothing. The status is \<^verbatim>\<open>submit_failed\<close> exactly when the handshake returned, within
  its 60 seconds, with a nonzero exit code, and the error text is then the captured
  error output; when the handshake raised, by exceeding the 60 seconds or otherwise,
  the status is \<^verbatim>\<open>error\<close> with the text of the exception; with exit code 0 the status
  stays \<^verbatim>\<open>submitted_async\<close>.
\<close>

theorem submit_job_async_outcome:
  "(\<forall>ex. generate_job_name cfg = Inl ex \<longrightarrow>
      submit_job_async rs te region cfg ints idx = Inl ex) \<and>
   (\<forall>ex. generate_job_name cfg = Inl ex \<longrightarrow>
      ex = OverflowError \<and>
        (float_mul (cfg_dropout cfg) (Finite 100) = PosInf \<or>
         float_mul (cfg_dropout cfg) (Finite 100) = NegInf) \<or>
      ex = ValueError \<and> float_mul (cfg_dropout cfg) (Finite 100) = NaN) \<and>
   ((\<exists>name. generate_job_name cfg = Inr name) =
      (\<exists>q. float_mul (cfg_dropout cfg) (Finite 100) = Finite q)) \<and>
   (\<forall>name. generate_job_name cfg = Inr name \<and> map_of rs region = None \<longrightarrow>
      submit_job_async rs te region cfg ints idx = Inl (KeyError region)) \<and>
   (\<forall>name rc. generate_job_name cfg = Inr name \<and> map_of rs region = Some rc \<longrightarrow>
      (\<exists>e. submit_job_async rs te region cfg ints idx = Inr e \<and>
         ((status e = ''submit_failed'') =
            (\<exists>seconds returncode out err.
               remote te = Terminates seconds returncode out err \<and> seconds \<le> 60
                 \<and> returncode \<noteq> 0)) \<and>
         (\<forall>seconds returncode out err.
            remote te = Terminates seconds returncode out err \<and> seconds \<le> 60
              \<and> returncode \<noteq> 0 \<longrightarrow>
            error e = Some err) \<and>
         (\<forall>seconds returncode out err.
            remote te = Terminates seconds returncode out err \<and> 60 < seconds \<longrightarrow>
            status e = ''error'' \<and> error e = Some (timeout_text te)) \<and>
         (remote te = Never \<longrightarrow> status e = ''error'' \<and> error e = Some (timeout_text te)) \<and>
         (\<forall>m. remote te = Launch_fails m \<longrightarrow> status e = ''error'' \<and> error e = Some m) \<and>
         (\<forall>seconds out err.
            remote te = Terminates seconds 0 out err \<and> seconds \<le> 60 \<longrightarrow>
            status e = ''submitted_async'' \<and> error e = None)))"
proof (intro conjI allI impI)
  fix ex assume "generate_job_name cfg = Inl ex"
  then show "submit_job_async rs te region cfg ints idx = Inl ex"
    by (rule submit_raises)
next
  fix ex assume "generate_job_name cfg = Inl ex"
  then show "ex = OverflowError \<and>
        (float_mul (cfg_dropout cfg) (Finite 100) = PosInf \<or>
         float_mul (cfg_dropout cfg) (Finite 100) = NegInf) \<or>
      ex = ValueError \<and> float_mul (cfg_dropout cfg) (Finite 100) = NaN"
    by (rule job_name_raises)
next
  show "(\<exists>name. generate_job_name cfg = Inr name) =
      (\<exists>q. float_mul (cfg_dropout cfg) (Finite 100) = Finite q)"
    by (rule job_name_returns)
next
  fix name assume "generate_job_name cfg = Inr name \<and> map_of rs region = None"
  then show "submit_job_async rs te region cfg ints idx = Inl (KeyError region)"
    using submit_raises(4) by blast
next
  fix name rc assume "generate_job_name cfg = Inr name \<and> map_of rs region = Some rc"
  then have n: "generate_job_name cfg = Inr name" and r: "map_of rs region = Some rc"
    by simp_all
  show "\<exists>e. submit_job_async rs te region cfg ints idx = Inr e \<and>
         ((status e = ''submit_failed'') =
            (\<exists>seconds returncode out err.
               remote te = Terminates seconds returncode out err \<and> seconds \<le> 60
                 \<and> returncode \<noteq> 0)) \<and>
         (\<forall>seconds returncode out err.
            remote te = Terminates seconds returncode out err \<and> seconds \<le> 60
              \<and> returncode \<noteq> 0 \<longrightarrow>
            error e = Some err) \<and>
         (\<forall>seconds returncode out err.
            remote te = Terminates seconds returncode out err \<and> 60 < seconds \<longrightarrow>
            status e = ''error'' \<and> error e = Some (timeout_text te)) \<and>
         (remote te = Never \<longrightarrow> status e = ''error'' \<and> error e = Some (timeout_text te)) \<and>
         (\<forall>m. remote te = Launch_fails m \<longrightarrow> status e = ''error'' \<and> error e = Some m) \<and>
         (\<forall>seconds out err.
            remote te = Terminates seconds 0 out err \<and> seconds \<le> 60 \<longrightarrow>
            status e = ''submitted_async'' \<and> error e = None)"
    unfolding submit_job_async_cases [OF n r]
    by (cases "remote te") (auto simp: subprocess_run_def submitted_entry_def)
qed

text \<open>
  An unreachable host, a successful launch, and a handshake that takes 61 seconds.
\<close>

theorem submit_job_async_outcome_witness:
  "(\<exists>e. submit_job_async REGIONS (mk_tick scenario_A (Terminates 5 255 [] ''No route to host''))
          ''nordic'' first_config snapshot_A 0 = Inr e \<and>
        status e = ''submit_failed'' \<and> error e = Some ''No route to host'') \<and>
   (\<exists>e. submit_job_async REGIONS (mk_tick scenario_A (Terminates 5 0 [] []))
          ''nordic'' first_config snapshot_A 0 = Inr e \<and>
        status e = ''submitted_async'' \<and> error e = None) \<and>
   (\<exists>e. submit_job_async REGIONS (mk_tick scenario_A (Terminates 61 0 [] []))
          ''nordic'' first_config snapshot_A 0 = Inr e \<and>
        status e = ''error'' \<and> error e = Some ''timed out'')"
proof (intro conjI)
  from submit_job_async_outcome [of first_config REGIONS
      "mk_tick scenario_A (Terminates 5 255 [] ''No route to host'')" "''nordic''"
      snapshot_A 0]
    first_job_name nordic_config
  show "\<exists>e. submit_job_async REGIONS
          (mk_tick scenario_A (Terminates 5 255 [] ''No route to host''))
          ''nordic'' first_config snapshot_A 0 = Inr e \<and>
        status e = ''submit_failed'' \<and> error e = Some ''No route to host''"
    by (auto simp: mk_tick_def)
next
  from submit_job_async_outcome [of first_config REGIONS
      "mk_tick scenario_A (Terminates 5 0 [] [])" "''nordic''" snapshot_A 0]
    first_job_name nordic_config
  show "\<exists>e. submit_job_async REGIONS (mk_tick scenario_A (Terminates 5 0 [] []))
          ''nordic'' first_config snapshot_A 0 = Inr e \<and>
        status e = ''submitted_async'' \<and> error e = None"
    by (auto simp: mk_tick_def)
next
  from submit_job_async_outcome [of first_config REGIONS
      "mk_tick scenario_A (Terminates 61 0 [] [])" "''nordic''" snapshot_A 0]
    first_job_name nordic_config
  show "\<exists>e. submit_job_async REGIONS (mk_tick scenario_A (Terminates 61 0 [] []))
          ''nordic'' first_config snapshot_A 0 = Inr e \<and>
        status e = ''error'' \<and> error e = Some ''timed out''"
    by (auto simp: mk_tick_def)
qed

text \<open>
  The call does raise to its caller, before the handshake: for a region that is not
  in the table, and for a configuration whose dropout is infinite.
\<close>

theorem submit_job_async_raises_counterexample:
  "submit_job_async REGIONS (mk_tick scenario_A (Terminates 5 0 [] []))
       ''mars'' first_config snapshot_A 0 = Inl (KeyError ''mars'') \<and>
   submit_job_async REGIONS (mk_tick scenario_A (Terminates 5 0 [] []))
       ''nordic'' infinite_dropout_config snapshot_A 0 = Inl OverflowError"
proof (intro conjI)
  have "map_of REGIONS ''mars'' = None" by (simp add: REGIONS_def)
  from submit_raises(4) [OF first_job_name this]
  show "submit_job_async REGIONS (mk_tick scenario_A (Terminates 5 0 [] []))
       ''mars'' first_config snapshot_A 0 = Inl (KeyError ''mars'')" .
  from submit_raises(2) [OF infinite_dropout_name]
  show "submit_job_async REGIONS (mk_tick scenario_A (Terminates 5 0 [] []))
       ''nordic'' infinite_dropout_config snapshot_A 0 = Inl OverflowError" .
qed

text \<open>
  Claim C6, as the code has it. Every entry a submit function returns holds the
  timestamp, the job index, the configuration, the selected region, the snapshot it
  was given, the job name and identifier, and one of six statuses. The two elapsed
  fields are there exactly when the blocking submission saw the command return, that
  is with status \<^verbatim>\<open>completed\<close> or \<^verbatim>\<open>failed\<close>; an entry with status
  \<^verbatim>\<open>timeout\<close> or \<^verbatim>\<open>error\<close>, and every entry of the non-blocking submission, has
  neither.
\<close>

theorem dispatcher_record_fields:
  assumes "(if am then submit_job_async else submit_job_ssh) rs te region cfg ints idx = Inr e"
  shows "timestamp e = iso_now te \<and> job_index e = idx \<and> config e = cfg \<and>
     selected_region e = Some region \<and> intensities e = Some ints \<and>
     (\<exists>name. generate_job_name cfg = Inr name \<and>
        job_id e = Some (name @ ''-'' @ stamp te) \<and> job_name e = Some name) \<and>
     status e \<in> set [''completed'', ''failed'', ''timeout'', ''error'',
                     ''submitted_async'', ''submit_failed''] \<and>
     ((elapsed_seconds e \<noteq> None) =
        (\<not> am \<and> (\<exists>returncode out err.
           subprocess_run (4 * 3600) (timeout_text te) (remote te) =
             Exited returncode out err))) \<and>
     ((elapsed_hours e \<noteq> None) = (elapsed_seconds e \<noteq> None)) \<and>
     ((elapsed_seconds e \<noteq> None) =
        (\<not> am \<and> (status e = ''completed'' \<or> status e = ''failed'')))"
proof -
  from assms obtain name where n: "generate_job_name cfg = Inr name"
    by (cases "generate_job_name cfg")
      (auto simp: submit_job_async_def submit_job_ssh_def split: if_splits)
  from assms n obtain rc where rc: "map_of rs region = Some rc"
    by (cases "map_of rs region")
      (auto simp: submit_job_async_def submit_job_ssh_def split: if_splits)
  show ?thesis
  proof (cases am)
    case True
    with assms have "submit_job_async rs te region cfg ints idx = Inr e" by simp
    then show ?thesis
      unfolding submit_job_async_cases [OF n rc] using True n
      by (cases "subprocess_run 60 (timeout_text te) (remote te)")
        (auto simp: submitted_entry_def split: if_splits)
  next
    case False
    with assms have "submit_job_ssh rs te region cfg ints idx = Inr e" by simp
    then show ?thesis
      unfolding submit_job_ssh_cases [OF n rc] using False n
      by (cases "subprocess_run (4 * 3600) (timeout_text te) (remote te)")
        (auto simp: submitted_entry_def split: if_splits)
  qed
qed

text \<open>
  A failed blocking submission: all fields, the elapsed ones included.
\<close>

theorem dispatcher_record_fields_witness:
  "\<exists>e. submit_job_ssh REGIONS (mk_tick scenario_A (exits 1 ''CUDA out of memory''))
          ''nordic'' first_config snapshot_A 0 = Inr e \<and>
        timestamp e = ''2025-01-01T12:00:00'' \<and> job_index e = 0 \<and> config e = first_config \<and>
        selected_region e = Some ''nordic'' \<and> intensities e = Some snapshot_A \<and>
        job_name e = Some ''lora-r16-a32-lr1e-04-d10'' \<and>
        job_id e = Some ''lora-r16-a32-lr1e-04-d10-20250101120000'' \<and>
        elapsed_seconds e \<noteq> None \<and> elapsed_hours e \<noteq> None"
proof -
  from submit_job_ssh_cases [OF first_job_name nordic_config] obtain e where
    e: "submit_job_ssh REGIONS (mk_tick scenario_A (exits 1 ''CUDA out of memory''))
          ''nordic'' first_config snapshot_A 0 = Inr e"
    by blast
  then have "(if False then submit_job_async else submit_job_ssh) REGIONS
      (mk_tick scenario_A (exits 1 ''CUDA out of memory''))
      ''nordic'' first_config snapshot_A 0 = Inr e" by simp
  from dispatcher_record_fields [OF this] e first_job_name show ?thesis
    by (auto simp: mk_tick_def exits_def subprocess_run_def)
qed

text \<open>
  A launched non-blocking submission and a blocking one whose command ran a second
  longer than the 4 hours: entries without an elapsed duration.
\<close>

theorem dispatcher_elapsed_counterexample:
  "(\<exists>e. submit_job_async REGIONS (mk_tick scenario_A (Terminates 5 0 [] []))
          ''nordic'' first_config snapshot_A 0 = Inr e \<and>
        status e = ''submitted_async'' \<and>
        elapsed_seconds e = None \<and> elapsed_hours e = None) \<and>
   (\<exists>e. submit_job_ssh REGIONS (mk_tick scenario_A (Terminates 14401 0 [] []))
          ''nordic'' first_config snapshot_A 0 = Inr e \<and>
        status e = ''timeout'' \<and>
        elapsed_seconds e = None \<and> elapsed_hours e = None)"
  unfolding submit_job_ssh_cases [OF first_job_name nordic_config]
    submit_job_async_cases [OF first_job_name nordic_config]
  by (simp add: mk_tick_def submitted_entry_def subprocess_run_def)

subsection \<open>The campaign\<close>

lemma experiment_length: "length EXPERIMENT_CONFIGS = 21"
  by (simp add: EXPERIMENT_CONFIGS_def)

text \<open>
  A wait sleeps in chunks of at most 600 seconds that add up to the interval: 7200
  seconds for the configured two hours.
\<close>

lemma wait_loop_total:
  "sum_list (wait_loop total_seconds elapsed) = max 0 (total_seconds - elapsed)"
proof (induction total_seconds elapsed rule: wait_loop.induct)
  case (1 total_seconds elapsed)
  show ?case
  proof (cases "elapsed < total_seconds")
    case True
    with 1 show ?thesis
      by (subst wait_loop.simps) (simp add: min_def max_def)
  next
    case False
    then show ?thesis
      by (subst wait_loop.simps) simp
  qed
qed

lemma wait_chunks_bounded:
  "c \<in> set (wait_loop total_seconds elapsed) \<Longrightarrow> 0 < c \<and> c \<le> 600"
proof (induction total_seconds elapsed rule: wait_loop.induct)
  case (1 total_seconds elapsed)
  from "1.prems" have lt: "elapsed < total_seconds"
    by (subst (asm) wait_loop.simps) (simp split: if_splits)
  from "1.prems" lt have
    "c = min 600 (total_seconds - elapsed) \<or>
     c \<in> set (wait_loop total_seconds (elapsed + min 600 (total_seconds - elapsed)))"
    by (subst (asm) wait_loop.simps) simp
  with "1.IH" [OF lt] lt show ?case by auto
qed

lemma cadence_seconds:
  "sum_list (wait_until_next_submission SUBMISSION_INTERVAL_HOURS) = 7200"
  by (simp add: wait_until_next_submission_def SUBMISSION_INTERVAL_HOURS_def wait_loop_total)

lemma wait_after_no_dispatch: "Dispatch r j c \<notin> set (wait_after n i)"
  by (simp add: wait_after_def)

lemma run_tick_dispatch:
  assumes "Dispatch r j c \<in> set (fst (run_tick rs am te n i cfg))"
  shows "j = i \<and> c = cfg \<and> (\<exists>ints. pick_cleanest_region rs (api_now te) = Inr (r, ints))"
  using assms wait_after_no_dispatch [of r j c n i]
  by (auto simp: run_tick_def
      split: sum.splits py_exn.splits prod.splits if_splits option.splits)

lemma run_loop_dispatch:
  "Dispatch r j c \<in> set (fst (run_loop rs am ticks n xs)) \<Longrightarrow>
   (j, c) \<in> set xs \<and> (\<exists>ints. pick_cleanest_region rs (api_now (ticks j)) = Inr (r, ints))"
proof (induction xs)
  case Nil
  then show ?case by simp
next
  case (Cons x xs)
  obtain i cfg where x: "x = (i, cfg)" by (cases x)
  obtain evs ex where t: "run_tick rs am (ticks i) n i cfg = (evs, ex)"
    by (cases "run_tick rs am (ticks i) n i cfg")
  from Cons.prems x t have
    "Dispatch r j c \<in> set evs \<or> Dispatch r j c \<in> set (fst (run_loop rs am ticks n xs))"
    by (cases ex) auto
  then show ?case
  proof
    assume "Dispatch r j c \<in> set evs"
    with t have "Dispatch r j c \<in> set (fst (run_tick rs am (ticks i) n i cfg))" by simp
    from run_tick_dispatch [OF this] x show ?thesis by auto
  next
    assume "Dispatch r j c \<in> set (fst (run_loop rs am ticks n xs))"
    from Cons.IH [OF this] show ?thesis by auto
  qed
qed

lemma run_experiment_dispatch:
  assumes "Dispatch r j c \<in> set (fst (run_experiment rs configs am ticks response))"
  shows "j < length configs \<and> c = configs ! j \<and>
    (\<exists>ints. pick_cleanest_region rs (api_now (ticks j)) = Inr (r, ints))"
proof -
  from assms have
    "Dispatch r j c \<in> set (fst (run_loop rs am ticks (length configs) (enumerate 0 configs)))"
    by (auto simp: run_experiment_def Let_def split: if_splits)
  from run_loop_dispatch [OF this] show ?thesis
    by (auto simp: in_set_enumerate_eq)
qed

lemma run_tick_normal:
  assumes "pick_cleanest_region rs (api_now te) = Inr (region, ints)"
    and "print_intensity_report ints = None"
    and "(if am then submit_job_async else submit_job_ssh) rs te region cfg ints i = Inr e"
  shows "run_tick rs am te n i cfg = (Dispatch region i cfg # LogAppend e # wait_after n i, None)"
  using assms by (simp add: run_tick_def)

lemma run_loop_step:
  assumes "Suc i < length configs"
  shows "run_loop rs am ticks n (drop (Suc i) (enumerate 0 configs)) =
     (case run_tick rs am (ticks (Suc i)) n (Suc i) (configs ! Suc i) of
        (evs, Some e) \<Rightarrow> (evs, Crashed e)
      | (evs, None) \<Rightarrow>
          (evs @ fst (run_loop rs am ticks n (drop (Suc (Suc i)) (enumerate 0 configs))),
           snd (run_loop rs am ticks n (drop (Suc (Suc i)) (enumerate 0 configs)))))"
proof -
  have "drop (Suc i) (enumerate 0 configs) =
      enumerate 0 configs ! Suc i # drop (Suc (Suc i)) (enumerate 0 configs)"
    using assms by (simp add: Cons_nth_drop_Suc)
  then have "drop (Suc i) (enumerate 0 configs) =
      (Suc i, configs ! Suc i) # drop (Suc (Suc i)) (enumerate 0 configs)"
    using assms by (simp add: nth_enumerate_eq)
  then show ?thesis by simp
qed

lemma scenario_tick_0:
  "run_tick REGIONS False (scenario_ticks 0) n 0 first_config =
      (Dispatch ''nordic'' 0 first_config
        # LogAppend ((submitted_entry (scenario_ticks 0) ''nordic''
              \<lparr>zone = ''NO'', ip = ''100.80.123.80'',
               description = ''Nordic - Hydro-dominated grid''\<rparr>
              ''lora-r16-a32-lr1e-04-d10'' first_config snapshot_A 0 ''completed'')
            \<lparr>elapsed_seconds := Some (elapsed_time (scenario_ticks 0)),
             elapsed_hours := Some (float_div_3600 (elapsed_time (scenario_ticks 0)))\<rparr>)
        # wait_after n 0, None)"
proof -
  have p: "pick_cleanest_region REGIONS (api_now (scenario_ticks 0)) =
      Inr (''nordic'', snapshot_A)"
    by (simp add: scenario_ticks_def mk_tick_def scenario_picks)
  have r: "print_intensity_report snapshot_A = None"
    by code_simp
  have s: "subprocess_run (4 * 3600) (timeout_text (scenario_ticks 0))
      (remote (scenario_ticks 0)) = Exited 0 [] []"
    by (simp add: scenario_ticks_def mk_tick_def exits_def subprocess_run_def)
  have "submit_job_ssh REGIONS (scenario_ticks 0) ''nordic'' first_config snapshot_A 0 =
      Inr ((submitted_entry (scenario_ticks 0) ''nordic''
              \<lparr>zone = ''NO'', ip = ''100.80.123.80'',
               description = ''Nordic - Hydro-dominated grid''\<rparr>
              ''lora-r16-a32-lr1e-04-d10'' first_config snapshot_A 0 ''completed'')
            \<lparr>elapsed_seconds := Some (elapsed_time (scenario_ticks 0)),
             elapsed_hours := Some (float_div_3600 (elapsed_time (scenario_ticks 0)))\<rparr>)"
    unfolding submit_job_ssh_cases [OF first_job_name nordic_config] s by simp
  then have "(if False then submit_job_async else submit_job_ssh) REGIONS (scenario_ticks 0)
      ''nordic'' first_config snapshot_A 0 =
      Inr ((submitted_entry (scenario_ticks 0) ''nordic''
              \<lparr>zone = ''NO'', ip = ''100.80.123.80'',
               description = ''Nordic - Hydro-dominated grid''\<rparr>
              ''lora-r16-a32-lr1e-04-d10'' first_config snapshot_A 0 ''completed'')
            \<lparr>elapsed_seconds := Some (elapsed_time (scenario_ticks 0)),
             elapsed_hours := Some (float_div_3600 (elapsed_time (scenario_ticks 0)))\<rparr>)"
    by simp
  from run_tick_normal [OF p r this] show ?thesis .
qed

lemma first_of_campaign: "EXPERIMENT_CONFIGS = first_config # tl EXPERIMENT_CONFIGS"
  by (simp add: EXPERIMENT_CONFIGS_def first_config_def)

text \<open>
  Claim C7. Take a campaign that gets past the prompt and reaches tick \<open>i\<close>, and let
  the selection of that tick fail. Then the campaign is: what the ticks before \<open>i\<close>
  did, the skipped entry, the wait, and the rest of the loop from job \<open>i + 1\<close> on.
  The wait is one call of \<^verbatim>\<open>wait_until_next_submission(SUBMISSION_INTERVAL_HOURS)\<close>,
  7200 seconds in all, left out after the last job, and it is the wait that follows a
  tick that dispatched. The rest of the loop begins with the tick of job \<open>i + 1\<close>. In
  the whole run no submission carries the job index \<open>i\<close>, and when the configurations
  are pairwise different no submission at any index carries the configuration of job
  \<open>i\<close>.
\<close>

theorem skipped_job_not_retried:
  assumes "i < length configs"
    and "(\<forall>p \<in> set rs. \<not> contains ''100.x.x.x'' (ip (snd p))) \<or> answers_yes response"
    and "snd (run_loop rs am ticks (length configs) (take i (enumerate 0 configs))) = Completed"
    and "pick_cleanest_region rs (api_now (ticks i)) = Inl (RuntimeError m)"
  shows
    "run_experiment rs configs am ticks response =
       (fst (run_loop rs am ticks (length configs) (take i (enumerate 0 configs)))
          @ LogAppend (skipped_entry (ticks i) i (configs ! i))
          # wait_after (length configs) i
          @ fst (run_loop rs am ticks (length configs) (drop (Suc i) (enumerate 0 configs))),
        snd (run_loop rs am ticks (length configs) (drop (Suc i) (enumerate 0 configs)))) \<and>
     wait_after (length configs) i =
       (if Suc i < length configs
        then [Wait (wait_until_next_submission SUBMISSION_INTERVAL_HOURS)] else []) \<and>
     sum_list (wait_until_next_submission SUBMISSION_INTERVAL_HOURS) = 7200 \<and>
     (Suc i < length configs \<longrightarrow>
        run_loop rs am ticks (length configs) (drop (Suc i) (enumerate 0 configs)) =
          (case run_tick rs am (ticks (Suc i)) (length configs) (Suc i) (configs ! Suc i) of
             (evs, Some e) \<Rightarrow> (evs, Crashed e)
           | (evs, None) \<Rightarrow>
               (evs @ fst (run_loop rs am ticks (length configs)
                             (drop (Suc (Suc i)) (enumerate 0 configs))),
                snd (run_loop rs am ticks (length configs)
                       (drop (Suc (Suc i)) (enumerate 0 configs)))))) \<and>
     (\<forall>te region ints e cfg.
        pick_cleanest_region rs (api_now te) = Inr (region, ints) \<and>
        print_intensity_report ints = None \<and>
        (if am then submit_job_async else submit_job_ssh) rs te region cfg ints i = Inr e \<longrightarrow>
        run_tick rs am te (length configs) i cfg =
          (Dispatch region i cfg # LogAppend e # wait_after (length configs) i, None)) \<and>
     (\<forall>r c. Dispatch r i c \<notin> set (fst (run_experiment rs configs am ticks response))) \<and>
     (distinct configs \<longrightarrow>
        (\<forall>r j. Dispatch r j (configs ! i)
           \<notin> set (fst (run_experiment rs configs am ticks response))))"
proof (intro conjI allI impI)
  show "run_experiment rs configs am ticks response =
       (fst (run_loop rs am ticks (length configs) (take i (enumerate 0 configs)))
          @ LogAppend (skipped_entry (ticks i) i (configs ! i))
          # wait_after (length configs) i
          @ fst (run_loop rs am ticks (length configs) (drop (Suc i) (enumerate 0 configs))),
        snd (run_loop rs am ticks (length configs) (drop (Suc i) (enumerate 0 configs))))"
    unfolding run_experiment_at [OF assms(1) assms(2) assms(3)] run_tick_skip [OF assms(4)]
    by simp
next
  show "wait_after (length configs) i =
       (if Suc i < length configs
        then [Wait (wait_until_next_submission SUBMISSION_INTERVAL_HOURS)] else [])"
    by (auto simp: wait_after_def)
next
  show "sum_list (wait_until_next_submission SUBMISSION_INTERVAL_HOURS) = 7200"
    by (rule cadence_seconds)
next
  assume "Suc i < length configs"
  then show "run_loop rs am ticks (length configs) (drop (Suc i) (enumerate 0 configs)) =
          (case run_tick rs am (ticks (Suc i)) (length configs) (Suc i) (configs ! Suc i) of
             (evs, Some e) \<Rightarrow> (evs, Crashed e)
           | (evs, None) \<Rightarrow>
               (evs @ fst (run_loop rs am ticks (length configs)
                             (drop (Suc (Suc i)) (enumerate 0 configs))),
                snd (run_loop rs am ticks (length configs)
                       (drop (Suc (Suc i)) (enumerate 0 configs)))))"
    by (rule run_loop_step)
next
  fix te region ints e cfg
  assume "pick_cleanest_region rs (api_now te) = Inr (region, ints) \<and>
        print_intensity_report ints = None \<and>
        (if am then submit_job_async else submit_job_ssh) rs te region cfg ints i = Inr e"
  then show "run_tick rs am te (length configs) i cfg =
          (Dispatch region i cfg # LogAppend e # wait_after (length configs) i, None)"
    using run_tick_normal by blast
next
  fix r c
  show "Dispatch r i c \<notin> set (fst (run_experiment rs configs am ticks response))"
    using run_experiment_dispatch [of r i c rs configs am ticks response] assms(4) by auto
next
  fix r j
  assume d: "distinct configs"
  show "Dispatch r j (configs ! i) \<notin> set (fst (run_experiment rs configs am ticks response))"
  proof
    assume "Dispatch r j (configs ! i) \<in> set (fst (run_experiment rs configs am ticks response))"
    from run_experiment_dispatch [OF this] obtain ints where
      j: "j < length configs" and eq: "configs ! i = configs ! j" and
      pk: "pick_cleanest_region rs (api_now (ticks j)) = Inr (r, ints)" by auto
    from d j eq assms(1) have "j = i" by (simp add: nth_eq_iff_index_eq)
    with pk assms(4) show False by simp
  qed
qed

text \<open>
  The campaign of 21 jobs with the outage in the second tick, started with the answer
  \<^verbatim>\<open>y\<close>: the first job is dispatched to the Nordic region, the second is logged as
  skipped and followed by the wait, and the loop goes on with the third.
\<close>

theorem skipped_job_not_retried_witness:
  "(\<exists>e rest ending.
      run_experiment REGIONS EXPERIMENT_CONFIGS False scenario_ticks ''y'' =
        (Dispatch ''nordic'' 0 first_config # LogAppend e
           # Wait (wait_until_next_submission SUBMISSION_INTERVAL_HOURS)
           # LogAppend (skipped_entry (scenario_ticks 1) 1 (EXPERIMENT_CONFIGS ! 1))
           # Wait (wait_until_next_submission SUBMISSION_INTERVAL_HOURS)
           # rest, ending)) \<and>
   (\<forall>r c. Dispatch r 1 c
      \<notin> set (fst (run_experiment REGIONS EXPERIMENT_CONFIGS False scenario_ticks ''y''))) \<and>
   (\<forall>r j. Dispatch r j (EXPERIMENT_CONFIGS ! 1)
      \<notin> set (fst (run_experiment REGIONS EXPERIMENT_CONFIGS False scenario_ticks ''y'')))"
proof -
  have i: "1 < length EXPERIMENT_CONFIGS" by (simp add: experiment_length)
  have y: "(\<forall>p \<in> set REGIONS. \<not> contains ''100.x.x.x'' (ip (snd p))) \<or> answers_yes ''y''"
    by (simp add: answers_yes_def)
  have t: "take 1 (enumerate 0 EXPERIMENT_CONFIGS) = [(0, first_config)]"
    by (subst first_of_campaign) simp
  have l: "run_loop REGIONS False scenario_ticks (length EXPERIMENT_CONFIGS)
        (take 1 (enumerate 0 EXPERIMENT_CONFIGS)) =
      (fst (run_tick REGIONS False (scenario_ticks 0) (length EXPERIMENT_CONFIGS) 0
         first_config), Completed)"
    unfolding t by (simp add: scenario_tick_0)
  then have c: "snd (run_loop REGIONS False scenario_ticks (length EXPERIMENT_CONFIGS)
      (take 1 (enumerate 0 EXPERIMENT_CONFIGS))) = Completed"
    by simp
  have f: "pick_cleanest_region REGIONS (api_now (scenario_ticks 1)) =
      Inl (RuntimeError ''Could not get carbon intensity for any region!'')"
    by (simp add: scenario_ticks_def mk_tick_def scenario_picks)
  have w: "wait_after (length EXPERIMENT_CONFIGS) 0 =
      [Wait (wait_until_next_submission SUBMISSION_INTERVAL_HOURS)]"
    "wait_after (length EXPERIMENT_CONFIGS) 1 =
      [Wait (wait_until_next_submission SUBMISSION_INTERVAL_HOURS)]"
    by (simp_all add: wait_after_def experiment_length)
  note th = skipped_job_not_retried [where i = 1 and configs = EXPERIMENT_CONFIGS
      and rs = REGIONS and ticks = scenario_ticks and am = False and response = "''y''",
      OF i y c f]
  have "\<exists>e rest ending.
      run_experiment REGIONS EXPERIMENT_CONFIGS False scenario_ticks ''y'' =
        (Dispatch ''nordic'' 0 first_config # LogAppend e
           # Wait (wait_until_next_submission SUBMISSION_INTERVAL_HOURS)
           # LogAppend (skipped_entry (scenario_ticks 1) 1 (EXPERIMENT_CONFIGS ! 1))
           # Wait (wait_until_next_submission SUBMISSION_INTERVAL_HOURS)
           # rest, ending)"
    unfolding th [THEN conjunct1] l scenario_tick_0 w by simp
  moreover have "\<forall>r c. Dispatch r 1 c
      \<notin> set (fst (run_experiment REGIONS EXPERIMENT_CONFIGS False scenario_ticks ''y''))"
    using th by blast
  moreover have "\<forall>r j. Dispatch r j (EXPERIMENT_CONFIGS ! 1)
      \<notin> set (fst (run_experiment REGIONS EXPERIMENT_CONFIGS False scenario_ticks ''y''))"
    using th configs_distinct by blast
  ultimately show ?thesis by blast
qed

lemma pick_no_regions:
  "pick_cleanest_region [] a =
     Inl (RuntimeError ''Could not get carbon intensity for any region!'')"
  by (simp add: pick_cleanest_region_def get_all_intensities_def valid_readings_def)

lemma run_loop_no_regions:
  "run_loop [] am ticks n xs =
     (concat (map (\<lambda>(i, cfg). LogAppend (skipped_entry (ticks i) i cfg) # wait_after n i) xs),
      Completed)"
proof (induction xs)
  case Nil
  show ?case by simp
next
  case (Cons x xs)
  obtain i cfg where x: "x = (i, cfg)" by (cases x)
  show ?case
    unfolding x using Cons.IH run_tick_skip [OF pick_no_regions]
    by simp
qed

text \<open>
  Claim C5, as the code has it. When some region has a placeholder address the
  runner asks the operator and returns before the first tick unless the answer is
  \<^verbatim>\<open>y\<close> or \<^verbatim>\<open>Y\<close>; otherwise, and after that answer, the loop runs. An empty
  region table is not rejected: every tick fails to select a region inside the loop,
  logs a skipped entry and waits, and the run completes.
\<close>

theorem run_experiment_startup:
  "((\<exists>p \<in> set rs. contains ''100.x.x.x'' (ip (snd p))) \<and> \<not> answers_yes response \<longrightarrow>
      run_experiment rs configs am ticks response = ([], Declined)) \<and>
   ((\<forall>p \<in> set rs. \<not> contains ''100.x.x.x'' (ip (snd p))) \<or> answers_yes response \<longrightarrow>
      run_experiment rs configs am ticks response =
        run_loop rs am ticks (length configs) (enumerate 0 configs)) \<and>
   run_experiment [] configs am ticks response =
     (concat (map (\<lambda>(i, cfg). LogAppend (skipped_entry (ticks i) i cfg)
                      # wait_after (length configs) i) (enumerate 0 configs)),
      Completed)"
proof -
  have iff: "(map fst (filter (\<lambda>(r, c). contains ''100.x.x.x'' (ip c)) rs) \<noteq> []) =
      (\<exists>p \<in> set rs. contains ''100.x.x.x'' (ip (snd p)))"
    by (force simp: filter_empty_conv)
  have "run_experiment [] configs am ticks response =
      run_loop [] am ticks (length configs) (enumerate 0 configs)"
    by (simp add: run_experiment_def)
  then show ?thesis
    using iff by (auto simp: run_experiment_def Let_def run_loop_no_regions)
qed

text \<open>
  The declared table has a placeholder address for Ohio: the answer \<^verbatim>\<open>n\<close> ends the
  run before the loop, the answer \<^verbatim>\<open>Y\<close> starts it.
\<close>

theorem run_experiment_startup_witness:
  "run_experiment REGIONS EXPERIMENT_CONFIGS False scenario_ticks ''n'' = ([], Declined) \<and>
   run_experiment REGIONS EXPERIMENT_CONFIGS False scenario_ticks ''Y'' =
     run_loop REGIONS False scenario_ticks 21 (enumerate 0 EXPERIMENT_CONFIGS)"
proof -
  have p: "\<exists>p \<in> set REGIONS. contains ''100.x.x.x'' (ip (snd p))"
    by (simp add: REGIONS_def)
  have n: "\<not> answers_yes ''n''" and y: "answers_yes ''Y''"
    by (simp_all add: answers_yes_def)
  from run_experiment_startup [of REGIONS "''n''" EXPERIMENT_CONFIGS False scenario_ticks] p n
  have "run_experiment REGIONS EXPERIMENT_CONFIGS False scenario_ticks ''n'' = ([], Declined)"
    by blast
  moreover
  from run_experiment_startup [of REGIONS "''Y''" EXPERIMENT_CONFIGS False scenario_ticks] y
  have "run_experiment REGIONS EXPERIMENT_CONFIGS False scenario_ticks ''Y'' =
     run_loop REGIONS False scenario_ticks (length EXPERIMENT_CONFIGS)
       (enumerate 0 EXPERIMENT_CONFIGS)"
    by blast
  ultimately show ?thesis by (simp add: experiment_length)
qed

text \<open>
  With no region configured the first tick is run and logged, and the campaign
  completes; with the declared table and the answer \<^verbatim>\<open>y\<close> at the prompt the first
  job is dispatched although Ohio has a placeholder address.
\<close>

theorem run_experiment_no_regions_counterexample:
  "(\<exists>evs. run_experiment [] EXPERIMENT_CONFIGS False scenario_ticks [] =
      (LogAppend (skipped_entry (scenario_ticks 0) 0 first_config) # evs, Completed)) \<and>
   (\<exists>evs ending. run_experiment REGIONS EXPERIMENT_CONFIGS False scenario_ticks ''y'' =
      (Dispatch ''nordic'' 0 first_config # evs, ending))"
proof
  have "run_experiment [] EXPERIMENT_CONFIGS False scenario_ticks [] =
      run_loop [] False scenario_ticks (length EXPERIMENT_CONFIGS)
        (enumerate 0 (first_config # tl EXPERIMENT_CONFIGS))"
    using first_of_campaign by (simp add: run_experiment_def)
  then show "\<exists>evs. run_experiment [] EXPERIMENT_CONFIGS False scenario_ticks [] =
      (LogAppend (skipped_entry (scenario_ticks 0) 0 first_config) # evs, Completed)"
    unfolding run_loop_no_regions by simp
next
  have "run_experiment REGIONS EXPERIMENT_CONFIGS False scenario_ticks ''y'' =
      run_loop REGIONS False scenario_ticks (length EXPERIMENT_CONFIGS)
        (enumerate 0 (first_config # tl EXPERIMENT_CONFIGS))"
    using first_of_campaign by (simp add: run_experiment_def answers_yes_def)
  then show "\<exists>evs ending. run_experiment REGIONS EXPERIMENT_CONFIGS False scenario_ticks ''y'' =
      (Dispatch ''nordic'' 0 first_config # evs, ending)"
    by (simp add: scenario_tick_0)
qed

end
